theory Spec2Isabelle
  imports Main
begin

section \<open>The relational store\<close>

text \<open>
  The storage layer (server/storage.ts) talks to a relational store through a query
  builder. A table is the list of its rows, in the order the store keeps them. Columns
  follow the later of the two schemas of the repository (the one with \<open>isActive\<close>,
  which server/auth.ts reads): a nullable column is an \<open>option\<close>, a timestamp is a
  number of milliseconds, a \<open>serial\<close> key is an integer handed out by a counter of
  the table.
\<close>

type_synonym timestamp = int

record user =
  u_id :: int
  u_email :: string
  u_username :: string
  u_passwordHash :: string
  u_firstName :: "string option"
  u_lastName :: "string option"
  u_profileImageUrl :: "string option"
  u_role :: string
  u_isBanned :: bool
  u_banReason :: "string option"
  u_bannedAt :: "timestamp option"
  u_bannedBy :: "int option"
  u_ageVerified :: bool
  u_isActive :: "bool option"
  u_createdAt :: "timestamp option"
  u_updatedAt :: "timestamp option"

record fanwork =
  fw_id :: int
  fw_title :: string
  fw_description :: "string option"
  fw_type :: string
  fw_rating :: string
  fw_content :: "string option"
  fw_imageUrl :: "string option"
  fw_fileUrl :: "string option"
  fw_wordCount :: "int option"
  fw_chapterCount :: "int option"
  fw_isComplete :: "bool option"
  fw_authorId :: int
  fw_isHidden :: bool
  fw_moderationReason :: "string option"
  fw_moderatedAt :: "timestamp option"
  fw_moderatedBy :: "int option"
  fw_contentType :: string
  fw_isReported :: bool
  fw_reportCount :: int
  fw_ao3WorkId :: "string option"
  fw_ao3Url :: "string option"
  fw_originalAuthor :: "string option"
  fw_importedAt :: "timestamp option"
  fw_createdAt :: "timestamp option"
  fw_updatedAt :: "timestamp option"

record tag =
  t_id :: int
  t_name :: string
  t_createdAt :: "timestamp option"

record fanwork_tag =
  ft_id :: int
  ft_fanworkId :: int
  ft_tagId :: int

text \<open>The tables \<open>likes\<close> and \<open>bookmarks\<close> have the same four columns.\<close>

record interaction =
  ia_id :: int
  ia_userId :: int
  ia_fanworkId :: int
  ia_createdAt :: "timestamp option"

record comment =
  c_id :: int
  c_content :: string
  c_userId :: int
  c_fanworkId :: int
  c_createdAt :: "timestamp option"
  c_updatedAt :: "timestamp option"

record report =
  r_id :: int
  r_reporterId :: int
  r_fanworkId :: "int option"
  r_commentId :: "int option"
  r_userId :: "int option"
  r_reason :: string
  r_description :: "string option"
  r_status :: string
  r_reviewedBy :: "int option"
  r_reviewedAt :: "timestamp option"
  r_moderationAction :: "string option"
  r_createdAt :: "timestamp option"

record db =
  users :: "user list"
  fanworks :: "fanwork list"
  tags :: "tag list"
  fanworkTags :: "fanwork_tag list"
  likes :: "interaction list"
  comments :: "comment list"
  bookmarks :: "interaction list"
  reports :: "report list"
  likes_id_seq :: int
  bookmarks_id_seq :: int

text \<open>
  What a rejected promise carries: the store refuses a statement (a key that is already
  there, a reference to a row that is not, a text that is no integer, a negative row
  limit or offset, an update that sets nothing).
\<close>

datatype store_error =
  UniqueViolation
  | ForeignKeyViolation
  | InvalidTextRepresentation
  | InvalidRowCount
  | NoValuesToSet

subsection \<open>Statements\<close>

definition select_where :: "('r \<Rightarrow> bool) \<Rightarrow> 'r list \<Rightarrow> 'r list" where
  "select_where p rows = filter p rows"

definition delete_where :: "('r \<Rightarrow> bool) \<Rightarrow> 'r list \<Rightarrow> 'r list" where
  "delete_where p rows = filter (\<lambda>r. \<not> p r) rows"


text \<open>The destructuring \<open>const [x] = rows\<close>: the first row, or undefined.\<close>

fun first_row :: "'r list \<Rightarrow> 'r option" where
  "first_row [] = None"
| "first_row (r # rs) = Some r"


section \<open>Counters (DatabaseStorage.getFanworkCounts)\<close>



section \<open>Likes and bookmarks (toggleLike, toggleBookmark, isLiked, isBookmarked)\<close>

text \<open>
  The condition \<open>and(eq(t.userId, userId), eq(t.fanworkId, fanworkId))\<close> of the four
  operations.
\<close>

definition pair_is :: "int \<Rightarrow> int \<Rightarrow> interaction \<Rightarrow> bool" where
  "pair_is userId fanworkId r = (ia_userId r = userId \<and> ia_fanworkId r = fanworkId)"

text \<open>
  \<open>insert into t (user_id, fanwork_id) values (...)\<close>: the key comes from the table's
  counter and \<open>createdAt\<close> from the store's clock. Both columns reference another table
  (\<open>users.id\<close>, \<open>fanworks.id\<close>), and the store refuses a row whose reference has no
  target. The caller advances the counter whether the row is accepted or not.
\<close>

definition insert_interaction ::
  "db \<Rightarrow> int \<Rightarrow> timestamp \<Rightarrow> int \<Rightarrow> int \<Rightarrow> interaction list \<Rightarrow> store_error + interaction list" where
  "insert_interaction d key now userId fanworkId rows =
     (if userId \<in> set (map u_id (users d)) \<and> fanworkId \<in> set (map fw_id (fanworks d))
      then Inr (rows @ [\<lparr> ia_id = key, ia_userId = userId, ia_fanworkId = fanworkId,
                          ia_createdAt = Some now \<rparr>])
      else Inl ForeignKeyViolation)"

text \<open>
  An operation returns what its promise settles with (\<open>Inl\<close>: rejected) and the store
  it leaves behind.
\<close>

definition toggleLike :: "db \<Rightarrow> timestamp \<Rightarrow> int \<Rightarrow> int \<Rightarrow> (store_error + bool) \<times> db" where
  "toggleLike d now userId fanworkId =
     (case first_row (select_where (pair_is userId fanworkId) (likes d)) of
        Some existing \<Rightarrow>
          (Inr False, d\<lparr> likes := delete_where (pair_is userId fanworkId) (likes d) \<rparr>)
      | None \<Rightarrow>
          (case insert_interaction d (likes_id_seq d) now userId fanworkId (likes d) of
             Inl e \<Rightarrow> (Inl e, d\<lparr> likes_id_seq := likes_id_seq d + 1 \<rparr>)
           | Inr rows \<Rightarrow> (Inr True, d\<lparr> likes := rows, likes_id_seq := likes_id_seq d + 1 \<rparr>)))"

definition toggleBookmark :: "db \<Rightarrow> timestamp \<Rightarrow> int \<Rightarrow> int \<Rightarrow> (store_error + bool) \<times> db" where
  "toggleBookmark d now userId fanworkId =
     (case first_row (select_where (pair_is userId fanworkId) (bookmarks d)) of
        Some existing \<Rightarrow>
          (Inr False, d\<lparr> bookmarks := delete_where (pair_is userId fanworkId) (bookmarks d) \<rparr>)
      | None \<Rightarrow>
          (case insert_interaction d (bookmarks_id_seq d) now userId fanworkId (bookmarks d) of
             Inl e \<Rightarrow> (Inl e, d\<lparr> bookmarks_id_seq := bookmarks_id_seq d + 1 \<rparr>)
           | Inr rows \<Rightarrow>
               (Inr True, d\<lparr> bookmarks := rows, bookmarks_id_seq := bookmarks_id_seq d + 1 \<rparr>)))"

definition isLiked :: "db \<Rightarrow> int \<Rightarrow> int \<Rightarrow> bool" where
  "isLiked d userId fanworkId =
     (case first_row (select_where (pair_is userId fanworkId) (likes d)) of
        Some existing \<Rightarrow> True | None \<Rightarrow> False)"

definition isBookmarked :: "db \<Rightarrow> int \<Rightarrow> int \<Rightarrow> bool" where
  "isBookmarked d userId fanworkId =
     (case first_row (select_where (pair_is userId fanworkId) (bookmarks d)) of
        Some existing \<Rightarrow> True | None \<Rightarrow> False)"

text \<open>Calling the same toggle once per clock reading of a list, in sequence.\<close>

fun toggleLike_times :: "db \<Rightarrow> timestamp list \<Rightarrow> int \<Rightarrow> int \<Rightarrow> db" where
  "toggleLike_times d [] userId fanworkId = d"
| "toggleLike_times d (now # ts) userId fanworkId =
     toggleLike_times (snd (toggleLike d now userId fanworkId)) ts userId fanworkId"

fun toggleBookmark_times :: "db \<Rightarrow> timestamp list \<Rightarrow> int \<Rightarrow> int \<Rightarrow> db" where
  "toggleBookmark_times d [] userId fanworkId = d"
| "toggleBookmark_times d (now # ts) userId fanworkId =
     toggleBookmark_times (snd (toggleBookmark d now userId fanworkId)) ts userId fanworkId"

text \<open>Any sequence of toggle calls, by any users on any fanworks.\<close>

datatype toggle_call =
  ToggleLike timestamp int int
  | ToggleBookmark timestamp int int

fun run_toggles :: "db \<Rightarrow> toggle_call list \<Rightarrow> db" where
  "run_toggles d [] = d"
| "run_toggles d (ToggleLike now userId fanworkId # cs) =
     run_toggles (snd (toggleLike d now userId fanworkId)) cs"
| "run_toggles d (ToggleBookmark now userId fanworkId # cs) =
     run_toggles (snd (toggleBookmark d now userId fanworkId)) cs"

text \<open>No two rows of a relation table are about the same (user, fanwork) pair.\<close>

definition pairs_unique :: "interaction list \<Rightarrow> bool" where
  "pairs_unique rows = distinct (map (\<lambda>r. (ia_userId r, ia_fanworkId r)) rows)"

section \<open>Listing and reading fanworks (getFanworks, getFanwork)\<close>

subsection \<open>Conditions as the query text composes them\<close>

text \<open>
  The query builder joins the texts of the conditions; the store then reads the joined
  text with its own precedence, where \<open>and\<close> binds tighter than \<open>or\<close>. A condition
  text without outer parentheses is therefore kept as what the store will read: a list
  of alternatives (separated by \<open>or\<close>), each a list of comparisons (joined by
  \<open>and\<close>).
\<close>

type_synonym 'r sql = "('r \<Rightarrow> bool) list list"

definition sql_holds :: "'r sql \<Rightarrow> 'r \<Rightarrow> bool" where
  "sql_holds c r = list_ex (list_all (\<lambda>p. p r)) c"

text \<open>One comparison, such as \<open>eq(column, v)\<close> or \<open>inArray(column, vs)\<close>.\<close>

definition sql_atom :: "('r \<Rightarrow> bool) \<Rightarrow> 'r sql" where
  "sql_atom p = [[p]]"

text \<open>The text \<open>a OR b\<close>.\<close>

definition sql_or_text :: "'r sql \<Rightarrow> 'r sql \<Rightarrow> 'r sql" where
  "sql_or_text a b = a @ b"

text \<open>
  The text \<open>a and b\<close>: the last alternative of \<open>a\<close> and the first of \<open>b\<close> become
  one conjunction.
\<close>

fun sql_and_text :: "'r sql \<Rightarrow> 'r sql \<Rightarrow> 'r sql" where
  "sql_and_text [] b = b"
| "sql_and_text [g] [] = [g]"
| "sql_and_text [g] (h # hs) = (g @ h) # hs"
| "sql_and_text (g # g' # gs) b = g # sql_and_text (g' # gs) b"

text \<open>The text \<open>(a)\<close>: one operand, whatever is inside.\<close>

definition sql_paren :: "'r sql \<Rightarrow> 'r sql" where
  "sql_paren a = [[sql_holds a]]"

fun sql_join_and :: "'r sql list \<Rightarrow> 'r sql" where
  "sql_join_and [] = []"
| "sql_join_and [c] = c"
| "sql_join_and (c # c' # cs) = sql_and_text c (sql_join_and (c' # cs))"

text \<open>
  The builder's \<open>and(...conditions)\<close>: nothing for no condition, the condition itself
  for one, and for more the parenthesised join of the texts with \<open>and\<close> between them.
  The operands are not parenthesised one by one.
\<close>

fun drizzle_and :: "'r sql list \<Rightarrow> 'r sql option" where
  "drizzle_and [] = None"
| "drizzle_and [c] = Some c"
| "drizzle_and cs = Some (sql_paren (sql_join_and cs))"

text \<open>\<open>query.where(c)\<close> when there is a condition, the whole table otherwise.\<close>

fun where_opt :: "'r sql option \<Rightarrow> 'r list \<Rightarrow> 'r list" where
  "where_opt None rows = rows"
| "where_opt (Some c) rows = select_where (sql_holds c) rows"

subsection \<open>ILIKE\<close>

definition ascii_lower :: "char \<Rightarrow> char" where
  "ascii_lower c =
     (case map_of (zip ''ABCDEFGHIJKLMNOPQRSTUVWXYZ'' ''abcdefghijklmnopqrstuvwxyz'') c of
        Some l \<Rightarrow> l
      | None \<Rightarrow> c)"

text \<open>
  The store's pattern match without regard to case (of the ASCII letters, here):
  \<open>%\<close> stands for any run of characters, \<open>_\<close> for one character, a backslash
  takes the next character of the pattern literally. The first argument is the pattern.
\<close>

fun ilike_match :: "string \<Rightarrow> string \<Rightarrow> bool" where
  "ilike_match [] t = (t = [])"
| "ilike_match (p # ps) [] = (p = CHR ''%'' \<and> ilike_match ps [])"
| "ilike_match (p # ps) (x # xs) =
     (if p = CHR ''%'' then ilike_match ps (x # xs) \<or> ilike_match (p # ps) xs
      else if p = CHR ''_'' then ilike_match ps xs
      else if p = CHR 0x5C then
        (case ps of [] \<Rightarrow> False | q # qs \<Rightarrow> ascii_lower q = ascii_lower x \<and> ilike_match qs xs)
      else ascii_lower p = ascii_lower x \<and> ilike_match ps xs)"

text \<open>\<open>column ILIKE pattern\<close>; on a null column the comparison is not true.\<close>

definition ilike :: "string option \<Rightarrow> string \<Rightarrow> bool" where
  "ilike column pattern = (case column of None \<Rightarrow> False | Some t \<Rightarrow> ilike_match pattern t)"

subsection \<open>parseInt\<close>

definition js_space :: "char \<Rightarrow> bool" where
  "js_space c = (c \<in> set [CHR '' '', CHR 0x09, CHR 0x0A, CHR 0x0B, CHR 0x0C, CHR 0x0D])"

definition digit_of :: "nat \<Rightarrow> char \<Rightarrow> nat option" where
  "digit_of radix c =
     (case map_of (zip ''0123456789abcdef'' [0 ..< 16]) (ascii_lower c) of
        Some v \<Rightarrow> if v < radix then Some v else None
      | None \<Rightarrow> None)"

definition digits_value :: "nat \<Rightarrow> string \<Rightarrow> nat" where
  "digits_value radix z =
     foldl (\<lambda>a c. a * radix + (case digit_of radix c of Some v \<Rightarrow> v | None \<Rightarrow> 0)) 0 z"

text \<open>
  The language's \<open>parseInt\<close> without a radix; \<open>None\<close> is NaN. Leading white space
  (of ASCII, here) is dropped, a sign is read, a prefix \<open>0x\<close> selects base 16, and the
  longest run of digits is the number.
\<close>

definition parseInt :: "string \<Rightarrow> int option" where
  "parseInt s =
     (let s1 = dropWhile js_space s;
          neg = (take 1 s1 = ''-'');
          s2 = (if take 1 s1 = ''-'' \<or> take 1 s1 = ''+'' then drop 1 s1 else s1);
          hex = (take 2 s2 = ''0x'' \<or> take 2 s2 = ''0X'');
          radix = (if hex then 16 else 10);
          s3 = (if hex then drop 2 s2 else s2);
          z = takeWhile (\<lambda>c. digit_of radix c \<noteq> None) s3
      in if z = [] then None
         else Some ((if neg then - 1 else 1) * int (digits_value radix z)))"

subsection \<open>Order, limit and offset\<close>

text \<open>
  \<open>order by created_at desc\<close>: later rows first, rows without a timestamp before all
  others. Rows with the same timestamp stay in table order here; the store promises no
  order among them.
\<close>

definition desc_before :: "timestamp option \<Rightarrow> timestamp option \<Rightarrow> bool" where
  "desc_before a b =
     (case a of None \<Rightarrow> True
      | Some x \<Rightarrow> (case b of None \<Rightarrow> False | Some y \<Rightarrow> y \<le> x))"

fun insert_desc :: "fanwork \<Rightarrow> fanwork list \<Rightarrow> fanwork list" where
  "insert_desc w [] = [w]"
| "insert_desc w (v # vs) =
     (if desc_before (fw_createdAt w) (fw_createdAt v) then w # v # vs
      else v # insert_desc w vs)"

definition orderBy_desc_createdAt :: "fanwork list \<Rightarrow> fanwork list" where
  "orderBy_desc_createdAt rows = foldr insert_desc rows []"

text \<open>\<open>limit n offset k\<close>; no limit is \<open>None\<close>. The store refuses a negative number.\<close>

definition limit_offset :: "int option \<Rightarrow> int \<Rightarrow> 'r list \<Rightarrow> store_error + 'r list" where
  "limit_offset lim off rows =
     (case lim of
        None \<Rightarrow> if off < 0 then Inl InvalidRowCount else Inr (drop (nat off) rows)
      | Some n \<Rightarrow>
          if n < 0 \<or> off < 0 then Inl InvalidRowCount
          else Inr (take (nat n) (drop (nat off) rows)))"

subsection \<open>getFanworks\<close>

text \<open>
  The filters object; an absent field is \<open>None\<close>. A number field holds an integer, and
  \<open>None\<close> also stands for NaN, which every test of the code treats as absent.
\<close>

record filters =
  f_type :: "string list option"
  f_rating :: "string list option"
  f_tags :: "string list option"
  f_search :: "string option"
  f_authorId :: "string option"
  f_limit :: "int option"
  f_offset :: "int option"

text \<open>\<open>filters?.field\<close> on an optional filters object.\<close>

definition opt_field :: "(filters \<Rightarrow> 'a option) \<Rightarrow> filters option \<Rightarrow> 'a option" where
  "opt_field field fs = (case fs of None \<Rightarrow> None | Some f \<Rightarrow> field f)"

text \<open>\<open>n || dflt\<close> on a number: absent and 0 give the default.\<close>

definition number_or :: "int option \<Rightarrow> int \<Rightarrow> int" where
  "number_or n dflt = (case n of None \<Rightarrow> dflt | Some v \<Rightarrow> if v = 0 then dflt else v)"

definition type_conditions :: "filters option \<Rightarrow> fanwork sql list" where
  "type_conditions fs =
     (case opt_field f_type fs of
        Some (t # ts) \<Rightarrow> [sql_atom (\<lambda>w. fw_type w \<in> set (t # ts))]
      | _ \<Rightarrow> [])"

definition rating_conditions :: "filters option \<Rightarrow> fanwork sql list" where
  "rating_conditions fs =
     (case opt_field f_rating fs of
        Some (t # ts) \<Rightarrow> [sql_atom (\<lambda>w. fw_rating w \<in> set (t # ts))]
      | _ \<Rightarrow> [])"

text \<open>The search text of the moderation-capable variant: \<open>title ILIKE p OR description ILIKE p\<close>.\<close>

definition search_text :: "string \<Rightarrow> fanwork sql" where
  "search_text search =
     sql_or_text (sql_atom (\<lambda>w. ilike (Some (fw_title w)) (''%'' @ search @ ''%'')))
                 (sql_atom (\<lambda>w. ilike (fw_description w) (''%'' @ search @ ''%'')))"

definition search_conditions :: "filters option \<Rightarrow> fanwork sql list" where
  "search_conditions fs =
     (case opt_field f_search fs of
        Some (c # cs) \<Rightarrow> [search_text (c # cs)]
      | _ \<Rightarrow> [])"

text \<open>
  \<open>eq(fanworks.authorId, parseInt(filters.authorId))\<close>: the store refuses NaN as an
  integer.
\<close>

definition author_conditions :: "filters option \<Rightarrow> store_error + fanwork sql list" where
  "author_conditions fs =
     (case opt_field f_authorId fs of
        Some (c # cs) \<Rightarrow>
          (case parseInt (c # cs) of
             None \<Rightarrow> Inl InvalidTextRepresentation
           | Some a \<Rightarrow> Inr [sql_atom (\<lambda>w. fw_authorId w = a)])
      | _ \<Rightarrow> Inr [])"

definition getFanworks :: "db \<Rightarrow> filters option \<Rightarrow> store_error + fanwork list" where
  "getFanworks d fs =
     (case author_conditions fs of
        Inl e \<Rightarrow> Inl e
      | Inr author \<Rightarrow>
          (let conditions =
                 type_conditions fs @ rating_conditions fs @ search_conditions fs @ author;
               rows = (if conditions \<noteq> [] then where_opt (drizzle_and conditions) (fanworks d)
                       else fanworks d)
           in limit_offset (Some (number_or (opt_field f_limit fs) 20))
                (number_or (opt_field f_offset fs) 0)
                (orderBy_desc_createdAt rows)))"

text \<open>
  The other variant of the storage (user ids as strings): the search text is written
  with its own parentheses, the author id goes to the store as the text it is, and the
  limit and the offset are set only when they are given and not 0. The store reads the
  text as an integer with \<open>int4in\<close>, which is not code of the repository.
\<close>

definition search_conditions_v2 :: "filters option \<Rightarrow> fanwork sql list" where
  "search_conditions_v2 fs =
     (case opt_field f_search fs of
        Some (c # cs) \<Rightarrow> [sql_paren (search_text (c # cs))]
      | _ \<Rightarrow> [])"

definition author_conditions_v2 ::
  "(string \<Rightarrow> int option) \<Rightarrow> filters option \<Rightarrow> store_error + fanwork sql list" where
  "author_conditions_v2 int4in fs =
     (case opt_field f_authorId fs of
        Some (c # cs) \<Rightarrow>
          (case int4in (c # cs) of
             None \<Rightarrow> Inl InvalidTextRepresentation
           | Some a \<Rightarrow> Inr [sql_atom (\<lambda>w. fw_authorId w = a)])
      | _ \<Rightarrow> Inr [])"

definition getFanworks_v2 ::
  "(string \<Rightarrow> int option) \<Rightarrow> db \<Rightarrow> filters option \<Rightarrow> store_error + fanwork list" where
  "getFanworks_v2 int4in d fs =
     (case author_conditions_v2 int4in fs of
        Inl e \<Rightarrow> Inl e
      | Inr author \<Rightarrow>
          (let conditions =
                 type_conditions fs @ rating_conditions fs @ search_conditions_v2 fs @ author;
               rows = (if conditions \<noteq> [] then where_opt (drizzle_and conditions) (fanworks d)
                       else fanworks d);
               lim = (case opt_field f_limit fs of
                        Some n \<Rightarrow> if n = 0 then None else Some n
                      | None \<Rightarrow> None)
           in limit_offset lim (number_or (opt_field f_offset fs) 0)
                (orderBy_desc_createdAt rows)))"

text \<open>
  \<open>getFanworkTags\<close>: the rows of \<open>fanwork_tags\<close> of the fanwork, joined with the tag
  each of them names.
\<close>

definition getFanworkTags :: "db \<Rightarrow> int \<Rightarrow> tag list" where
  "getFanworkTags d fanworkId =
     concat (map (\<lambda>ft. select_where (\<lambda>t. t_id t = ft_tagId ft) (tags d))
                 (select_where (\<lambda>ft. ft_fanworkId ft = fanworkId) (fanworkTags d)))"

definition getFanwork :: "db \<Rightarrow> int \<Rightarrow> fanwork option" where
  "getFanwork d fanworkId = first_row (select_where (\<lambda>w. fw_id w = fanworkId) (fanworks d))"

text \<open>
  A condition none of whose comparisons reads \<open>isHidden\<close>: each gives the same
  answer on a row whatever the flag is set to.
\<close>

definition blind :: "(fanwork \<Rightarrow> bool) \<Rightarrow> fanwork sql \<Rightarrow> bool" where
  "blind h c = (\<forall>g \<in> set c. \<forall>p \<in> set g. \<forall>w. p (w\<lparr> fw_isHidden := h w \<rparr>) = p w)"

section \<open>Moderation (updateReport, banUser)\<close>







record ban_data =
  banReason :: string
  bannedBy :: string
  bannedAt :: timestamp

definition set_ban :: "string \<Rightarrow> int \<Rightarrow> timestamp \<Rightarrow> user \<Rightarrow> user" where
  "set_ban reason by at u =
     u\<lparr> u_isBanned := True, u_banReason := Some reason, u_bannedBy := Some by,
        u_bannedAt := Some at \<rparr>"

text \<open>
  \<open>banUser\<close> receives the user id and the moderator id as texts and hands them to the
  store, which reads them as integers (\<open>int4in\<close>) for the columns \<open>id\<close> and
  \<open>banned_by\<close>; \<open>banned_by\<close> references \<open>users.id\<close>.
\<close>

definition banUser ::
  "(string \<Rightarrow> int option) \<Rightarrow> db \<Rightarrow> string \<Rightarrow> ban_data \<Rightarrow> (store_error + user option) \<times> db" where
  "banUser int4in d userId data =
     (case int4in userId of
        None \<Rightarrow> (Inl InvalidTextRepresentation, d)
      | Some uid \<Rightarrow>
          (case int4in (bannedBy data) of
             None \<Rightarrow> (Inl InvalidTextRepresentation, d)
           | Some by \<Rightarrow>
               (let matched = select_where (\<lambda>u. u_id u = uid) (users d);
                    ban = set_ban (banReason data) by (bannedAt data)
                in if matched \<noteq> [] \<and> by \<notin> set (map u_id (users d))
                   then (Inl ForeignKeyViolation, d)
                   else (Inr (first_row (map ban matched)),
                         d\<lparr> users := map (\<lambda>u. if u_id u = uid then ban u else u) (users d) \<rparr>))))"

section \<open>Comments (deleteComment)\<close>

text \<open>
  \<open>delete from comments where id = commentId and user_id = userId\<close>. A report that
  references a deleted comment goes with it (\<open>on delete cascade\<close>).
\<close>

definition deleteComment :: "db \<Rightarrow> int \<Rightarrow> int \<Rightarrow> (store_error + unit) \<times> db" where
  "deleteComment d commentId userId =
     (let gone = select_where (\<lambda>c. c_id c = commentId \<and> c_userId c = userId) (comments d)
      in (Inr (),
          d\<lparr> comments :=
                delete_where (\<lambda>c. c_id c = commentId \<and> c_userId c = userId) (comments d),
              reports :=
                delete_where
                  (\<lambda>r. case r_commentId r of None \<Rightarrow> False
                        | Some k \<Rightarrow> k \<in> set (map c_id gone))
                  (reports d) \<rparr>))"

text \<open>The variant whose user id is a text, which the store reads as an integer.\<close>

definition deleteComment_v2 ::
  "(string \<Rightarrow> int option) \<Rightarrow> db \<Rightarrow> int \<Rightarrow> string \<Rightarrow> (store_error + unit) \<times> db" where
  "deleteComment_v2 int4in d commentId userId =
     (case int4in userId of
        None \<Rightarrow> (Inl InvalidTextRepresentation, d)
      | Some uid \<Rightarrow> deleteComment d commentId uid)"

section \<open>Access control (server/auth.ts)\<close>

definition getUserById :: "db \<Rightarrow> int \<Rightarrow> user option" where
  "getUserById d userId = first_row (select_where (\<lambda>u. u_id u = userId) (users d))"

text \<open>\<open>s.split(sep)\<close> for a separator of one character.\<close>

fun split_on :: "char \<Rightarrow> string \<Rightarrow> string list" where
  "split_on sep [] = [[]]"
| "split_on sep (c # cs) =
     (if c = sep then [] # split_on sep cs
      else (case split_on sep cs of
              [] \<Rightarrow> [[c]]
            | w # ws \<Rightarrow> (c # w) # ws))"

text \<open>
  \<open>authHeader && authHeader.split(' ')[1]\<close>: undefined is \<open>None\<close>. An absent or
  empty header gives a token that the test \<open>!token\<close> rejects, and so does an empty
  second word.
\<close>

definition bearer_token :: "string option \<Rightarrow> string option" where
  "bearer_token authHeader =
     (case authHeader of
        None \<Rightarrow> None
      | Some h \<Rightarrow>
          if h = [] then Some []
          else (case split_on CHR '' '' h of
                  a # b # rest \<Rightarrow> Some b
                | _ \<Rightarrow> None))"

record req_user =
  ru_id :: int
  ru_email :: string
  ru_username :: string

text \<open>
  A middleware either answers (status and message) or sets \<open>req.user\<close> and calls
  \<open>next()\<close>.
\<close>

datatype outcome =
  Respond nat string
  | Next req_user

definition as_req_user :: "user \<Rightarrow> req_user" where
  "as_req_user u = \<lparr> ru_id = u_id u, ru_email = u_email u, ru_username = u_username u \<rparr>"

text \<open>
  The middlewares take the token verifier (a signature check with a secret, not
  modelled) and the storage's user lookup as it answers: \<open>Inl\<close> when the promise is
  rejected, which the \<open>catch\<close> turns into status 500.
\<close>

definition requireModerator ::
  "(string \<Rightarrow> int option) \<Rightarrow> (int \<Rightarrow> 'e + user option) \<Rightarrow> string option \<Rightarrow> outcome" where
  "requireModerator verifyToken lookup authHeader =
     (case bearer_token authHeader of
        None \<Rightarrow> Respond 401 ''Access token required''
      | Some token \<Rightarrow>
          if token = [] then Respond 401 ''Access token required''
          else
            (case verifyToken token of
               None \<Rightarrow> Respond 401 ''Invalid or expired token''
             | Some userId \<Rightarrow>
                 (case lookup userId of
                    Inl e \<Rightarrow> Respond 500 ''Authentication failed''
                  | Inr None \<Rightarrow> Respond 401 ''User not found or inactive''
                  | Inr (Some u) \<Rightarrow>
                      if u_isActive u \<noteq> Some True
                      then Respond 401 ''User not found or inactive''
                      else if u_isBanned u then Respond 403 ''Account banned''
                      else if u_role u \<noteq> ''moderator'' \<and> u_role u \<noteq> ''admin''
                      then Respond 403 ''Moderator access required''
                      else Next (as_req_user u))))"

definition requireAdmin ::
  "(string \<Rightarrow> int option) \<Rightarrow> (int \<Rightarrow> 'e + user option) \<Rightarrow> string option \<Rightarrow> outcome" where
  "requireAdmin verifyToken lookup authHeader =
     (case bearer_token authHeader of
        None \<Rightarrow> Respond 401 ''Access token required''
      | Some token \<Rightarrow>
          if token = [] then Respond 401 ''Access token required''
          else
            (case verifyToken token of
               None \<Rightarrow> Respond 401 ''Invalid or expired token''
             | Some userId \<Rightarrow>
                 (case lookup userId of
                    Inl e \<Rightarrow> Respond 500 ''Authentication failed''
                  | Inr None \<Rightarrow> Respond 401 ''User not found or inactive''
                  | Inr (Some u) \<Rightarrow>
                      if u_isActive u \<noteq> Some True
                      then Respond 401 ''User not found or inactive''
                      else if u_isBanned u then Respond 403 ''Account banned''
                      else if u_role u \<noteq> ''admin''
                      then Respond 403 ''Admin access required''
                      else Next (as_req_user u))))"

definition requireAgeVerification ::
  "(string \<Rightarrow> int option) \<Rightarrow> (int \<Rightarrow> 'e + user option) \<Rightarrow> string option \<Rightarrow> outcome" where
  "requireAgeVerification verifyToken lookup authHeader =
     (case bearer_token authHeader of
        None \<Rightarrow> Respond 401 ''Access token required''
      | Some token \<Rightarrow>
          if token = [] then Respond 401 ''Access token required''
          else
            (case verifyToken token of
               None \<Rightarrow> Respond 401 ''Invalid or expired token''
             | Some userId \<Rightarrow>
                 (case lookup userId of
                    Inl e \<Rightarrow> Respond 500 ''Authentication failed''
                  | Inr None \<Rightarrow> Respond 401 ''User not found or inactive''
                  | Inr (Some u) \<Rightarrow>
                      if u_isActive u \<noteq> Some True
                      then Respond 401 ''User not found or inactive''
                      else if u_isBanned u then Respond 403 ''Account banned''
                      else if \<not> u_ageVerified u
                      then Respond 403 ''Age verification required for 18+ content''
                      else Next (as_req_user u))))"

text \<open>
  What the three middlewares share, read off a request: the credential is valid when
  the header carries a token, the token verifies, and the user it names is found and
  active.
\<close>

definition credential_user ::
  "(string \<Rightarrow> int option) \<Rightarrow> (int \<Rightarrow> 'e + user option) \<Rightarrow> string option \<Rightarrow> user option" where
  "credential_user verifyToken lookup authHeader =
     (case bearer_token authHeader of
        None \<Rightarrow> None
      | Some token \<Rightarrow>
          if token = [] then None
          else
            (case verifyToken token of
               None \<Rightarrow> None
             | Some userId \<Rightarrow>
                 (case lookup userId of
                    Inl e \<Rightarrow> None
                  | Inr None \<Rightarrow> None
                  | Inr (Some u) \<Rightarrow> if u_isActive u = Some True then Some u else None)))"

text \<open>The lookup's promise is rejected: the one case in which the answer has status 500.\<close>

definition lookup_rejected ::
  "(string \<Rightarrow> int option) \<Rightarrow> (int \<Rightarrow> 'e + user option) \<Rightarrow> string option \<Rightarrow> bool" where
  "lookup_rejected verifyToken lookup authHeader =
     (case bearer_token authHeader of
        None \<Rightarrow> False
      | Some token \<Rightarrow>
          if token = [] then False
          else
            (case verifyToken token of
               None \<Rightarrow> False
             | Some userId \<Rightarrow> (case lookup userId of Inl e \<Rightarrow> True | Inr x \<Rightarrow> False)))"

definition status_of :: "outcome \<Rightarrow> nat option" where
  "status_of out = (case out of Respond code message \<Rightarrow> Some code | Next ru \<Rightarrow> None)"

section \<open>A small store\<close>

text \<open>
  Two users, a moderator and an administrator who was banned later; a visible artwork
  with one tag and a hidden fanfiction without tags, both by the first user; one like
  and one comment by the second user; one report, which the administrator resolved by
  hiding the fanfiction.
\<close>

definition alice :: user where
  "alice =
     \<lparr> u_id = 1, u_email = ''alice@example.org'', u_username = ''alice'',
       u_passwordHash = ''$2a$12$a'', u_firstName = None, u_lastName = None,
       u_profileImageUrl = None, u_role = ''user'', u_isBanned = False, u_banReason = None,
       u_bannedAt = None, u_bannedBy = None, u_ageVerified = True, u_isActive = Some True,
       u_createdAt = Some 10, u_updatedAt = Some 10 \<rparr>"

definition bob :: user where
  "bob = alice\<lparr> u_id := 2, u_email := ''bob@example.org'', u_username := ''bob'',
                u_ageVerified := False \<rparr>"

definition summer :: user where
  "summer = alice\<lparr> u_id := 3, u_email := ''summer@example.org'', u_username := ''summer'',
                   u_role := ''moderator'' \<rparr>"

definition jerry :: user where
  "jerry = alice\<lparr> u_id := 4, u_email := ''jerry@example.org'', u_username := ''jerry'',
                  u_role := ''admin'', u_isBanned := True, u_banReason := Some ''spam'',
                  u_bannedAt := Some 900, u_bannedBy := Some 3 \<rparr>"

definition portal_art :: fanwork where
  "portal_art =
     \<lparr> fw_id = 1, fw_title = ''Portal gun'', fw_description = Some ''A green portal'',
       fw_type = ''artwork'', fw_rating = ''teen'', fw_content = None,
       fw_imageUrl = Some ''/uploads/portal.png'', fw_fileUrl = None, fw_wordCount = None,
       fw_chapterCount = None, fw_isComplete = Some False, fw_authorId = 1,
       fw_isHidden = False, fw_moderationReason = None, fw_moderatedAt = None,
       fw_moderatedBy = None, fw_contentType = ''fanart'', fw_isReported = False,
       fw_reportCount = 0, fw_ao3WorkId = None, fw_ao3Url = None, fw_originalAuthor = None,
       fw_importedAt = None, fw_createdAt = Some 100, fw_updatedAt = Some 100 \<rparr>"

definition pickle_fic :: fanwork where
  "pickle_fic =
     portal_art\<lparr> fw_id := 2, fw_title := ''Pickle'', fw_description := Some ''Rick is a pickle'',
                 fw_type := ''fanfiction'', fw_content := Some ''...'', fw_imageUrl := None,
                 fw_isHidden := True, fw_moderationReason := Some ''real_photo'',
                 fw_moderatedAt := Some 250, fw_moderatedBy := Some 4,
                 fw_createdAt := Some 200, fw_updatedAt := Some 200 \<rparr>"

definition bobs_like :: interaction where
  "bobs_like = \<lparr> ia_id = 1, ia_userId = 2, ia_fanworkId = 1, ia_createdAt = Some 120 \<rparr>"

definition bobs_comment :: comment where
  "bobs_comment =
     \<lparr> c_id = 1, c_content = ''wubba lubba'', c_userId = 2, c_fanworkId = 1,
       c_createdAt = Some 130, c_updatedAt = Some 130 \<rparr>"

definition resolved_report :: report where
  "resolved_report =
     \<lparr> r_id = 1, r_reporterId = 2, r_fanworkId = Some 2, r_commentId = None, r_userId = None,
       r_reason = ''real_photo'', r_description = None, r_status = ''resolved'',
       r_reviewedBy = Some 4, r_reviewedAt = Some 250,
       r_moderationAction = Some ''hide_content'', r_createdAt = Some 220 \<rparr>"

definition archive :: db where
  "archive =
     \<lparr> users = [alice, bob, summer, jerry], fanworks = [portal_art, pickle_fic],
       tags = [\<lparr> t_id = 1, t_name = ''portal'', t_createdAt = Some 100 \<rparr>],
       fanworkTags = [\<lparr> ft_id = 1, ft_fanworkId = 1, ft_tagId = 1 \<rparr>],
       likes = [bobs_like], comments = [bobs_comment], bookmarks = [],
       reports = [resolved_report], likes_id_seq = 2, bookmarks_id_seq = 1 \<rparr>"

text \<open>A reading of decimal texts for the places that take the store's \<open>int4in\<close>.\<close>

definition decimal :: "string \<Rightarrow> int option" where
  "decimal s =
     (if s \<noteq> [] \<and> list_all (\<lambda>c. digit_of 10 c \<noteq> None) s
      then Some (int (digits_value 10 s))
      else None)"

text \<open>Tokens that verify, and the user each of them names.\<close>

definition session_tokens :: "string \<Rightarrow> int option" where
  "session_tokens token =
     map_of [(''tok-alice'', 1), (''tok-bob'', 2), (''tok-summer'', 3), (''tok-jerry'', 4)] token"



definition no_filters :: filters where
  "no_filters =
     \<lparr> f_type = None, f_rating = None, f_tags = None, f_search = None, f_authorId = None,
       f_limit = None, f_offset = None \<rparr>"

section \<open>Properties\<close>

subsection \<open>Unfolding the small store and the operations\<close>

lemmas archive_defs =
  archive_def alice_def bob_def summer_def jerry_def portal_art_def pickle_fic_def
  bobs_like_def bobs_comment_def resolved_report_def

lemmas toggle_defs =
  toggleLike_def toggleBookmark_def isLiked_def isBookmarked_def insert_interaction_def
  select_where_def delete_where_def pair_is_def

subsection \<open>Counters\<close>





subsection \<open>Toggles\<close>

lemma first_row_eq_None: "first_row xs = None \<longleftrightarrow> xs = []"
  by (cases xs) auto

lemma first_row_case: "(case first_row xs of None \<Rightarrow> False | Some x \<Rightarrow> True) = (xs \<noteq> [])"
  by (cases xs) auto

lemma isLiked_iff: "isLiked d u i \<longleftrightarrow> (\<exists>r \<in> set (likes d). pair_is u i r)"
  by (simp add: isLiked_def select_where_def first_row_case filter_empty_conv)

lemma isBookmarked_iff: "isBookmarked d u i \<longleftrightarrow> (\<exists>r \<in> set (bookmarks d). pair_is u i r)"
  by (simp add: isBookmarked_def select_where_def first_row_case filter_empty_conv)

lemma toggleLike_present:
  "isLiked d u i \<Longrightarrow>
   toggleLike d now u i = (Inr False, d\<lparr> likes := filter (\<lambda>r. \<not> pair_is u i r) (likes d) \<rparr>)"
  by (auto simp: toggleLike_def isLiked_def delete_where_def split: option.splits)

lemma toggleLike_absent:
  "\<not> isLiked d u i \<Longrightarrow> u \<in> set (map u_id (users d)) \<Longrightarrow> i \<in> set (map fw_id (fanworks d)) \<Longrightarrow>
   toggleLike d now u i =
     (Inr True, d\<lparr> likes := likes d @ [\<lparr> ia_id = likes_id_seq d, ia_userId = u, ia_fanworkId = i,
                                          ia_createdAt = Some now \<rparr>],
                    likes_id_seq := likes_id_seq d + 1 \<rparr>)"
  by (auto simp: toggleLike_def isLiked_def insert_interaction_def split: option.splits)

lemma toggleLike_absent_no_target:
  "\<not> isLiked d u i \<Longrightarrow> \<not> (u \<in> set (map u_id (users d)) \<and> i \<in> set (map fw_id (fanworks d))) \<Longrightarrow>
   toggleLike d now u i = (Inl ForeignKeyViolation, d\<lparr> likes_id_seq := likes_id_seq d + 1 \<rparr>)"
  by (auto simp: toggleLike_def isLiked_def insert_interaction_def split: option.splits)

lemma toggleLike_frame:
  "users (snd (toggleLike d now u i)) = users d"
  "fanworks (snd (toggleLike d now u i)) = fanworks d"
  "comments (snd (toggleLike d now u i)) = comments d"
  "bookmarks (snd (toggleLike d now u i)) = bookmarks d"
  "reports (snd (toggleLike d now u i)) = reports d"
  by (auto simp: toggleLike_def insert_interaction_def split: option.splits)

lemma toggleLike_flip:
  assumes "u \<in> set (map u_id (users d))" "i \<in> set (map fw_id (fanworks d))"
  shows "fst (toggleLike d now u i) = Inr (\<not> isLiked d u i)"
    and "isLiked (snd (toggleLike d now u i)) u i = (\<not> isLiked d u i)"
proof -
  show "fst (toggleLike d now u i) = Inr (\<not> isLiked d u i)"
    using assms by (cases "isLiked d u i") (simp_all add: toggleLike_present toggleLike_absent)
  show "isLiked (snd (toggleLike d now u i)) u i = (\<not> isLiked d u i)"
  proof (cases "isLiked d u i")
    case True
    then show ?thesis by (simp add: toggleLike_present isLiked_iff)
  next
    case False
    then show ?thesis using assms by (simp add: toggleLike_absent isLiked_iff pair_is_def)
  qed
qed

lemma toggleLike_times_frame:
  "users (toggleLike_times d ts u i) = users d \<and> fanworks (toggleLike_times d ts u i) = fanworks d"
  by (induction ts arbitrary: d) (simp_all add: toggleLike_frame)

lemma toggleLike_times_parity:
  assumes "u \<in> set (map u_id (users d))" "i \<in> set (map fw_id (fanworks d))"
  shows "isLiked (toggleLike_times d ts u i) u i = (isLiked d u i \<noteq> odd (length ts))"
  using assms
proof (induction ts arbitrary: d)
  case Nil
  then show ?case by simp
next
  case (Cons now ts)
  let ?d = "snd (toggleLike d now u i)"
  have "isLiked (toggleLike_times ?d ts u i) u i = (isLiked ?d u i \<noteq> odd (length ts))"
    using Cons.prems by (intro Cons.IH) (simp_all add: toggleLike_frame)
  then show ?case using Cons.prems by (auto simp: toggleLike_flip)
qed


lemma toggleBookmark_present:
  "isBookmarked d u i \<Longrightarrow>
   toggleBookmark d now u i =
     (Inr False, d\<lparr> bookmarks := filter (\<lambda>r. \<not> pair_is u i r) (bookmarks d) \<rparr>)"
  by (auto simp: toggleBookmark_def isBookmarked_def delete_where_def split: option.splits)

lemma toggleBookmark_absent:
  "\<not> isBookmarked d u i \<Longrightarrow> u \<in> set (map u_id (users d)) \<Longrightarrow>
   i \<in> set (map fw_id (fanworks d)) \<Longrightarrow>
   toggleBookmark d now u i =
     (Inr True, d\<lparr> bookmarks := bookmarks d @ [\<lparr> ia_id = bookmarks_id_seq d, ia_userId = u,
                                                  ia_fanworkId = i, ia_createdAt = Some now \<rparr>],
                    bookmarks_id_seq := bookmarks_id_seq d + 1 \<rparr>)"
  by (auto simp: toggleBookmark_def isBookmarked_def insert_interaction_def split: option.splits)

lemma toggleBookmark_absent_no_target:
  "\<not> isBookmarked d u i \<Longrightarrow>
   \<not> (u \<in> set (map u_id (users d)) \<and> i \<in> set (map fw_id (fanworks d))) \<Longrightarrow>
   toggleBookmark d now u i =
     (Inl ForeignKeyViolation, d\<lparr> bookmarks_id_seq := bookmarks_id_seq d + 1 \<rparr>)"
  by (auto simp: toggleBookmark_def isBookmarked_def insert_interaction_def split: option.splits)

lemma toggleBookmark_frame:
  "users (snd (toggleBookmark d now u i)) = users d"
  "fanworks (snd (toggleBookmark d now u i)) = fanworks d"
  "comments (snd (toggleBookmark d now u i)) = comments d"
  "likes (snd (toggleBookmark d now u i)) = likes d"
  "reports (snd (toggleBookmark d now u i)) = reports d"
  by (auto simp: toggleBookmark_def insert_interaction_def split: option.splits)

lemma toggleBookmark_flip:
  assumes "u \<in> set (map u_id (users d))" "i \<in> set (map fw_id (fanworks d))"
  shows "fst (toggleBookmark d now u i) = Inr (\<not> isBookmarked d u i)"
    and "isBookmarked (snd (toggleBookmark d now u i)) u i = (\<not> isBookmarked d u i)"
proof -
  show "fst (toggleBookmark d now u i) = Inr (\<not> isBookmarked d u i)"
    using assms
    by (cases "isBookmarked d u i") (simp_all add: toggleBookmark_present toggleBookmark_absent)
  show "isBookmarked (snd (toggleBookmark d now u i)) u i = (\<not> isBookmarked d u i)"
  proof (cases "isBookmarked d u i")
    case True
    then show ?thesis by (simp add: toggleBookmark_present isBookmarked_iff)
  next
    case False
    then show ?thesis
      using assms by (simp add: toggleBookmark_absent isBookmarked_iff pair_is_def)
  qed
qed

lemma toggleBookmark_times_parity:
  assumes "u \<in> set (map u_id (users d))" "i \<in> set (map fw_id (fanworks d))"
  shows "isBookmarked (toggleBookmark_times d ts u i) u i = (isBookmarked d u i \<noteq> odd (length ts))"
  using assms
proof (induction ts arbitrary: d)
  case Nil
  then show ?case by simp
next
  case (Cons now ts)
  let ?d = "snd (toggleBookmark d now u i)"
  have "isBookmarked (toggleBookmark_times ?d ts u i) u i = (isBookmarked ?d u i \<noteq> odd (length ts))"
    using Cons.prems by (intro Cons.IH) (simp_all add: toggleBookmark_frame)
  then show ?case using Cons.prems by (auto simp: toggleBookmark_flip)
qed

subsection \<open>Uniqueness of pairs\<close>

lemma pairs_unique_filter: "pairs_unique rows \<Longrightarrow> pairs_unique (filter p rows)"
  by (simp add: pairs_unique_def distinct_map_filter)

lemma pairs_unique_snoc:
  assumes "pairs_unique rows" and "\<forall>r \<in> set rows. \<not> pair_is u i r"
  shows "pairs_unique (rows @ [\<lparr> ia_id = k, ia_userId = u, ia_fanworkId = i, ia_createdAt = t \<rparr>])"
  using assms by (auto simp: pairs_unique_def pair_is_def)

lemma pairs_unique_at_most_one:
  "pairs_unique rows \<Longrightarrow> length (filter (pair_is u i) rows) \<le> 1"
proof (induction rows)
  case Nil
  then show ?case by simp
next
  case (Cons r rows)
  show ?case
  proof (cases "pair_is u i r")
    case True
    with Cons.prems have "\<forall>x \<in> set rows. \<not> pair_is u i x"
      by (auto simp: pairs_unique_def pair_is_def image_iff)
    then have "filter (pair_is u i) rows = []" by (simp add: filter_empty_conv)
    with True show ?thesis by simp
  next
    case False
    with Cons show ?thesis by (simp add: pairs_unique_def)
  qed
qed

lemma toggleLike_pairs_unique:
  assumes "pairs_unique (likes d)"
  shows "pairs_unique (likes (snd (toggleLike d now u i)))"
proof (cases "isLiked d u i")
  case True
  then show ?thesis using assms by (simp add: toggleLike_present pairs_unique_filter)
next
  case False
  show ?thesis
  proof (cases "u \<in> set (map u_id (users d)) \<and> i \<in> set (map fw_id (fanworks d))")
    case True
    with False assms show ?thesis
      by (simp add: toggleLike_absent pairs_unique_snoc isLiked_iff)
  next
    case no_target: False
    with False assms show ?thesis by (simp add: toggleLike_absent_no_target)
  qed
qed

lemma toggleBookmark_pairs_unique:
  assumes "pairs_unique (bookmarks d)"
  shows "pairs_unique (bookmarks (snd (toggleBookmark d now u i)))"
proof (cases "isBookmarked d u i")
  case True
  then show ?thesis using assms by (simp add: toggleBookmark_present pairs_unique_filter)
next
  case False
  show ?thesis
  proof (cases "u \<in> set (map u_id (users d)) \<and> i \<in> set (map fw_id (fanworks d))")
    case True
    with False assms show ?thesis
      by (simp add: toggleBookmark_absent pairs_unique_snoc isBookmarked_iff)
  next
    case no_target: False
    with False assms show ?thesis by (simp add: toggleBookmark_absent_no_target)
  qed
qed

lemma run_toggles_pairs_unique:
  "pairs_unique (likes d) \<Longrightarrow> pairs_unique (bookmarks d) \<Longrightarrow>
   pairs_unique (likes (run_toggles d cs)) \<and> pairs_unique (bookmarks (run_toggles d cs))"
proof (induction d cs rule: run_toggles.induct)
  case (1 d)
  then show ?case by simp
next
  case (2 d now u i cs)
  then show ?case by (simp add: toggleLike_pairs_unique toggleLike_frame)
next
  case (3 d now u i cs)
  then show ?case by (simp add: toggleBookmark_pairs_unique toggleBookmark_frame)
qed


lemma toggleBookmark_times_frame:
  "users (toggleBookmark_times d ts u i) = users d \<and>
   fanworks (toggleBookmark_times d ts u i) = fanworks d"
  by (induction ts arbitrary: d) (simp_all add: toggleBookmark_frame)

text \<open>
  C1. For a user and a fanwork of the store, \<open>toggleLike\<close> (and \<open>toggleBookmark\<close>)
  looks for the row of the pair: when the row is there, it deletes it and returns
  false; when it is not, it inserts it and returns true. A call therefore returns the
  opposite of what the call before it returned, from any starting state, and the call
  after \<open>n\<close> calls returns true exactly when the row was there before an odd \<open>n\<close> or
  absent before an even \<open>n\<close>. Starting from no row, the row exists after an odd number
  of calls and does not after an even number.
\<close>

theorem toggle_alternates:
  assumes "userId \<in> set (map u_id (users d))" and "fanworkId \<in> set (map fw_id (fanworks d))"
  shows
    "(isLiked d userId fanworkId \<longrightarrow>
        toggleLike d now userId fanworkId =
          (Inr False, d\<lparr> likes := filter (\<lambda>r. \<not> pair_is userId fanworkId r) (likes d) \<rparr>) \<and>
        \<not> isLiked (snd (toggleLike d now userId fanworkId)) userId fanworkId) \<and>
     (\<not> isLiked d userId fanworkId \<longrightarrow>
        toggleLike d now userId fanworkId =
          (Inr True,
           d\<lparr> likes := likes d @ [\<lparr> ia_id = likes_id_seq d, ia_userId = userId,
                                     ia_fanworkId = fanworkId, ia_createdAt = Some now \<rparr>],
              likes_id_seq := likes_id_seq d + 1 \<rparr>) \<and>
        isLiked (snd (toggleLike d now userId fanworkId)) userId fanworkId) \<and>
     fst (toggleLike d now userId fanworkId) = Inr (\<not> isLiked d userId fanworkId) \<and>
     fst (toggleLike (snd (toggleLike d now userId fanworkId)) now' userId fanworkId) =
       Inr (isLiked d userId fanworkId) \<and>
     fst (toggleLike (toggleLike_times d ts userId fanworkId) now userId fanworkId) =
       Inr (isLiked d userId fanworkId = odd (length ts)) \<and>
     (\<not> isLiked d userId fanworkId \<longrightarrow>
        isLiked (toggleLike_times d ts userId fanworkId) userId fanworkId = odd (length ts)) \<and>
     (isBookmarked d userId fanworkId \<longrightarrow>
        toggleBookmark d now userId fanworkId =
          (Inr False,
           d\<lparr> bookmarks := filter (\<lambda>r. \<not> pair_is userId fanworkId r) (bookmarks d) \<rparr>) \<and>
        \<not> isBookmarked (snd (toggleBookmark d now userId fanworkId)) userId fanworkId) \<and>
     (\<not> isBookmarked d userId fanworkId \<longrightarrow>
        toggleBookmark d now userId fanworkId =
          (Inr True,
           d\<lparr> bookmarks := bookmarks d @ [\<lparr> ia_id = bookmarks_id_seq d, ia_userId = userId,
                                             ia_fanworkId = fanworkId, ia_createdAt = Some now \<rparr>],
              bookmarks_id_seq := bookmarks_id_seq d + 1 \<rparr>) \<and>
        isBookmarked (snd (toggleBookmark d now userId fanworkId)) userId fanworkId) \<and>
     fst (toggleBookmark d now userId fanworkId) = Inr (\<not> isBookmarked d userId fanworkId) \<and>
     fst (toggleBookmark (snd (toggleBookmark d now userId fanworkId)) now' userId fanworkId) =
       Inr (isBookmarked d userId fanworkId) \<and>
     fst (toggleBookmark (toggleBookmark_times d ts userId fanworkId) now userId fanworkId) =
       Inr (isBookmarked d userId fanworkId = odd (length ts)) \<and>
     (\<not> isBookmarked d userId fanworkId \<longrightarrow>
        isBookmarked (toggleBookmark_times d ts userId fanworkId) userId fanworkId
          = odd (length ts))"
proof -
  let ?d1 = "snd (toggleLike d now userId fanworkId)"
  let ?dn = "toggleLike_times d ts userId fanworkId"
  let ?b1 = "snd (toggleBookmark d now userId fanworkId)"
  let ?bn = "toggleBookmark_times d ts userId fanworkId"
  have l1: "isLiked d userId fanworkId \<longrightarrow>
        toggleLike d now userId fanworkId =
          (Inr False, d\<lparr> likes := filter (\<lambda>r. \<not> pair_is userId fanworkId r) (likes d) \<rparr>) \<and>
        \<not> isLiked ?d1 userId fanworkId"
    using toggleLike_present [of d userId fanworkId now] toggleLike_flip(2) [OF assms, of now]
    by blast
  have l2: "\<not> isLiked d userId fanworkId \<longrightarrow>
        toggleLike d now userId fanworkId =
          (Inr True,
           d\<lparr> likes := likes d @ [\<lparr> ia_id = likes_id_seq d, ia_userId = userId,
                                     ia_fanworkId = fanworkId, ia_createdAt = Some now \<rparr>],
              likes_id_seq := likes_id_seq d + 1 \<rparr>) \<and>
        isLiked ?d1 userId fanworkId"
    using toggleLike_absent [OF _ assms, of now] toggleLike_flip(2) [OF assms, of now]
    by blast
  have l3: "fst (toggleLike d now userId fanworkId) = Inr (\<not> isLiked d userId fanworkId)"
    using assms by (rule toggleLike_flip)
  have l4: "fst (toggleLike ?d1 now' userId fanworkId) = Inr (isLiked d userId fanworkId)"
    using assms by (simp add: toggleLike_flip toggleLike_frame)
  have l5: "fst (toggleLike ?dn now userId fanworkId)
              = Inr (isLiked d userId fanworkId = odd (length ts))"
    using assms by (auto simp: toggleLike_flip toggleLike_times_frame toggleLike_times_parity)
  have l6: "\<not> isLiked d userId fanworkId \<longrightarrow> isLiked ?dn userId fanworkId = odd (length ts)"
    using assms by (simp add: toggleLike_times_parity)
  have b1: "isBookmarked d userId fanworkId \<longrightarrow>
        toggleBookmark d now userId fanworkId =
          (Inr False,
           d\<lparr> bookmarks := filter (\<lambda>r. \<not> pair_is userId fanworkId r) (bookmarks d) \<rparr>) \<and>
        \<not> isBookmarked ?b1 userId fanworkId"
    using toggleBookmark_present [of d userId fanworkId now]
      toggleBookmark_flip(2) [OF assms, of now]
    by blast
  have b2: "\<not> isBookmarked d userId fanworkId \<longrightarrow>
        toggleBookmark d now userId fanworkId =
          (Inr True,
           d\<lparr> bookmarks := bookmarks d @ [\<lparr> ia_id = bookmarks_id_seq d, ia_userId = userId,
                                             ia_fanworkId = fanworkId, ia_createdAt = Some now \<rparr>],
              bookmarks_id_seq := bookmarks_id_seq d + 1 \<rparr>) \<and>
        isBookmarked ?b1 userId fanworkId"
    using toggleBookmark_absent [OF _ assms, of now] toggleBookmark_flip(2) [OF assms, of now]
    by blast
  have b3: "fst (toggleBookmark d now userId fanworkId) = Inr (\<not> isBookmarked d userId fanworkId)"
    using assms by (rule toggleBookmark_flip)
  have b4: "fst (toggleBookmark ?b1 now' userId fanworkId) = Inr (isBookmarked d userId fanworkId)"
    using assms by (simp add: toggleBookmark_flip toggleBookmark_frame)
  have b5: "fst (toggleBookmark ?bn now userId fanworkId)
              = Inr (isBookmarked d userId fanworkId = odd (length ts))"
    using assms
    by (auto simp: toggleBookmark_flip toggleBookmark_times_frame toggleBookmark_times_parity)
  have b6: "\<not> isBookmarked d userId fanworkId \<longrightarrow>
              isBookmarked ?bn userId fanworkId = odd (length ts)"
    using assms by (simp add: toggleBookmark_times_parity)
  from l1 l2 l3 l4 l5 l6 b1 b2 b3 b4 b5 b6 show ?thesis by blast
qed

text \<open>
  The second user of the small store, who likes the first fanwork and has no bookmark
  on it, and the first user, who does not like the second fanwork.
\<close>

theorem toggle_alternates_witness:
  "2 \<in> set (map u_id (users archive)) \<and> 1 \<in> set (map fw_id (fanworks archive)) \<and>
   isLiked archive 2 1 \<and>
   fst (toggleLike archive 1000 2 1) = Inr False \<and>
   fst (toggleLike (snd (toggleLike archive 1000 2 1)) 1001 2 1) = Inr True \<and>
   \<not> isBookmarked archive 2 1 \<and>
   fst (toggleBookmark archive 1000 2 1) = Inr True \<and>
   fst (toggleBookmark (snd (toggleBookmark archive 1000 2 1)) 1001 2 1) = Inr False \<and>
   isBookmarked (toggleBookmark_times archive [1000, 1001, 1002] 2 1) 2 1 \<and>
   1 \<in> set (map u_id (users archive)) \<and> 2 \<in> set (map fw_id (fanworks archive)) \<and>
   \<not> isLiked archive 1 2 \<and>
   isLiked (toggleLike_times archive [1000, 1001, 1002] 1 2) 1 2 \<and>
   \<not> isLiked (toggleLike_times archive [1000, 1001] 1 2) 1 2"
proof -
  have u: "2 \<in> set (map u_id (users archive))" by (simp add: archive_defs)
  have w: "1 \<in> set (map fw_id (fanworks archive))" by (simp add: archive_defs)
  have l: "isLiked archive 2 1" by (simp add: archive_defs toggle_defs)
  have b: "\<not> isBookmarked archive 2 1" by (simp add: archive_defs toggle_defs)
  note t = toggle_alternates [OF u w, where now = 1000 and now' = 1001
      and ts = "[1000, 1001, 1002]"]
  have "fst (toggleLike archive 1000 2 1) = Inr (\<not> isLiked archive 2 1)"
    using t by blast
  then have c1: "fst (toggleLike archive 1000 2 1) = Inr False" using l by simp
  have "fst (toggleLike (snd (toggleLike archive 1000 2 1)) 1001 2 1) = Inr (isLiked archive 2 1)"
    using t by blast
  then have c2: "fst (toggleLike (snd (toggleLike archive 1000 2 1)) 1001 2 1) = Inr True"
    using l by simp
  have "fst (toggleBookmark archive 1000 2 1) = Inr (\<not> isBookmarked archive 2 1)"
    using t by blast
  then have c3: "fst (toggleBookmark archive 1000 2 1) = Inr True" using b by simp
  have "fst (toggleBookmark (snd (toggleBookmark archive 1000 2 1)) 1001 2 1)
          = Inr (isBookmarked archive 2 1)"
    using t by blast
  then have c4: "fst (toggleBookmark (snd (toggleBookmark archive 1000 2 1)) 1001 2 1) = Inr False"
    using b by simp
  have "isBookmarked (toggleBookmark_times archive [1000, 1001, 1002] 2 1) 2 1
          = odd (length [1000, 1001, 1002 :: int])"
    using t b by blast
  then have c5: "isBookmarked (toggleBookmark_times archive [1000, 1001, 1002] 2 1) 2 1"
    by simp
  have u': "1 \<in> set (map u_id (users archive))" by (simp add: archive_defs)
  have w': "2 \<in> set (map fw_id (fanworks archive))" by (simp add: archive_defs)
  have l': "\<not> isLiked archive 1 2" by (simp add: archive_defs toggle_defs)
  have "isLiked (toggleLike_times archive [1000, 1001, 1002] 1 2) 1 2
          = odd (length [1000, 1001, 1002 :: int])"
    using l' toggle_alternates [OF u' w', where ts = "[1000, 1001, 1002]"] by blast
  then have c6: "isLiked (toggleLike_times archive [1000, 1001, 1002] 1 2) 1 2" by simp
  have "isLiked (toggleLike_times archive [1000, 1001] 1 2) 1 2
          = odd (length [1000, 1001 :: int])"
    using l' toggle_alternates [OF u' w', where ts = "[1000, 1001]"] by blast
  then have c7: "\<not> isLiked (toggleLike_times archive [1000, 1001] 1 2) 1 2" by simp
  from u w l b c1 c2 c3 c4 c5 u' w' l' c6 c7 show ?thesis by blast
qed


text \<open>
  C5. When no two rows of \<open>likes\<close> and no two rows of \<open>bookmarks\<close> are about the same
  (user, fanwork) pair, this is still so after a call of \<open>toggleLike\<close> or of
  \<open>toggleBookmark\<close>, and after any sequence of such calls there is at most one Like
  row and at most one Bookmark row for every pair.
\<close>

theorem toggles_keep_pairs_unique:
  assumes "pairs_unique (likes d)" and "pairs_unique (bookmarks d)"
  shows
    "pairs_unique (likes (snd (toggleLike d now userId fanworkId))) \<and>
     pairs_unique (bookmarks (snd (toggleLike d now userId fanworkId))) \<and>
     pairs_unique (likes (snd (toggleBookmark d now userId fanworkId))) \<and>
     pairs_unique (bookmarks (snd (toggleBookmark d now userId fanworkId))) \<and>
     length (filter (pair_is u i) (likes (run_toggles d calls))) \<le> 1 \<and>
     length (filter (pair_is u i) (bookmarks (run_toggles d calls))) \<le> 1"
proof -
  have r: "pairs_unique (likes (run_toggles d calls)) \<and>
           pairs_unique (bookmarks (run_toggles d calls))"
    using assms by (rule run_toggles_pairs_unique)
  have "length (filter (pair_is u i) (likes (run_toggles d calls))) \<le> 1"
    using r by (intro pairs_unique_at_most_one) simp
  moreover have "length (filter (pair_is u i) (bookmarks (run_toggles d calls))) \<le> 1"
    using r by (intro pairs_unique_at_most_one) simp
  ultimately show ?thesis
    using assms
    by (simp add: toggleLike_pairs_unique toggleBookmark_pairs_unique toggleLike_frame
        toggleBookmark_frame)
qed

text \<open>Four calls on the small store.\<close>

theorem toggles_keep_pairs_unique_witness:
  "pairs_unique (likes archive) \<and> pairs_unique (bookmarks archive) \<and>
   pairs_unique (likes (snd (toggleLike archive 1000 1 1))) \<and>
   length (filter (pair_is 2 1)
     (likes (run_toggles archive
        [ToggleLike 1000 2 1, ToggleLike 1001 2 1, ToggleBookmark 1002 2 1, ToggleLike 1003 2 1])))
     \<le> 1 \<and>
   length (filter (pair_is 2 1)
     (bookmarks (run_toggles archive
        [ToggleLike 1000 2 1, ToggleLike 1001 2 1, ToggleBookmark 1002 2 1, ToggleLike 1003 2 1])))
     \<le> 1"
proof -
  have l: "pairs_unique (likes archive)" by (simp add: archive_defs pairs_unique_def)
  have b: "pairs_unique (bookmarks archive)" by (simp add: archive_defs pairs_unique_def)
  note t = toggles_keep_pairs_unique [OF l b, where now = 1000 and userId = 1 and fanworkId = 1
      and u = 2 and i = 1
      and calls = "[ToggleLike 1000 2 1, ToggleLike 1001 2 1, ToggleBookmark 1002 2 1,
                    ToggleLike 1003 2 1]"]
  from l b t show ?thesis by blast
qed






subsection \<open>Access control\<close>

lemmas access_defs =
  requireModerator_def requireAdmin_def requireAgeVerification_def credential_user_def
  lookup_rejected_def status_of_def

text \<open>
  C9. The three role-gated middlewares (\<open>requireModerator\<close>, \<open>requireAdmin\<close>,
  \<open>requireAgeVerification\<close>) check in one order and stop at the first check that
  fails: the credential first (a request without a valid credential gets status 401,
  whatever the user's ban, role or age fields), then the ban (a banned user with a
  valid credential gets 403 "Account banned" from all three, whatever the role: a
  banned administrator too), then the role or the age verification (403 when it is
  missing, \<open>next()\<close> otherwise).
\<close>

theorem access_checks_in_order:
  "(credential_user verifyToken lookup authHeader = None \<and>
    \<not> lookup_rejected verifyToken lookup authHeader \<longrightarrow>
      status_of (requireModerator verifyToken lookup authHeader) = Some 401 \<and>
      status_of (requireAdmin verifyToken lookup authHeader) = Some 401 \<and>
      status_of (requireAgeVerification verifyToken lookup authHeader) = Some 401) \<and>
   (credential_user verifyToken lookup authHeader = Some u \<and> u_isBanned u \<longrightarrow>
      requireModerator verifyToken lookup authHeader = Respond 403 ''Account banned'' \<and>
      requireAdmin verifyToken lookup authHeader = Respond 403 ''Account banned'' \<and>
      requireAgeVerification verifyToken lookup authHeader = Respond 403 ''Account banned'') \<and>
   (credential_user verifyToken lookup authHeader = Some u \<and> \<not> u_isBanned u \<longrightarrow>
      requireModerator verifyToken lookup authHeader =
        (if u_role u = ''moderator'' \<or> u_role u = ''admin'' then Next (as_req_user u)
         else Respond 403 ''Moderator access required'') \<and>
      requireAdmin verifyToken lookup authHeader =
        (if u_role u = ''admin'' then Next (as_req_user u)
         else Respond 403 ''Admin access required'') \<and>
      requireAgeVerification verifyToken lookup authHeader =
        (if u_ageVerified u then Next (as_req_user u)
         else Respond 403 ''Age verification required for 18+ content''))"
proof -
  have invalid: "credential_user verifyToken lookup authHeader = None \<and>
    \<not> lookup_rejected verifyToken lookup authHeader \<longrightarrow>
      status_of (requireModerator verifyToken lookup authHeader) = Some 401 \<and>
      status_of (requireAdmin verifyToken lookup authHeader) = Some 401 \<and>
      status_of (requireAgeVerification verifyToken lookup authHeader) = Some 401"
    by (simp add: access_defs split: option.splits sum.splits)
  have banned: "credential_user verifyToken lookup authHeader = Some u \<and> u_isBanned u \<longrightarrow>
      requireModerator verifyToken lookup authHeader = Respond 403 ''Account banned'' \<and>
      requireAdmin verifyToken lookup authHeader = Respond 403 ''Account banned'' \<and>
      requireAgeVerification verifyToken lookup authHeader = Respond 403 ''Account banned''"
    by (auto simp: access_defs split: option.splits sum.splits if_splits)
  have role: "credential_user verifyToken lookup authHeader = Some u \<and> \<not> u_isBanned u \<longrightarrow>
      requireModerator verifyToken lookup authHeader =
        (if u_role u = ''moderator'' \<or> u_role u = ''admin'' then Next (as_req_user u)
         else Respond 403 ''Moderator access required'') \<and>
      requireAdmin verifyToken lookup authHeader =
        (if u_role u = ''admin'' then Next (as_req_user u)
         else Respond 403 ''Admin access required'') \<and>
      requireAgeVerification verifyToken lookup authHeader =
        (if u_ageVerified u then Next (as_req_user u)
         else Respond 403 ''Age verification required for 18+ content'')"
    by (auto simp: access_defs split: option.splits sum.splits if_splits)
  from invalid banned role show ?thesis by blast
qed


text \<open>
  The banned administrator, an ordinary user who is not age-verified, and a token that
  does not verify.
\<close>

theorem access_checks_in_order_witness:
  "credential_user session_tokens (\<lambda>i. Inr (getUserById archive i) :: store_error + user option)
      (Some ''Bearer tok-jerry'') = Some jerry \<and>
   u_isBanned jerry \<and> u_role jerry = ''admin'' \<and>
   requireAdmin session_tokens (\<lambda>i. Inr (getUserById archive i) :: store_error + user option)
      (Some ''Bearer tok-jerry'') = Respond 403 ''Account banned'' \<and>
   requireModerator session_tokens (\<lambda>i. Inr (getUserById archive i) :: store_error + user option)
      (Some ''Bearer tok-jerry'') = Respond 403 ''Account banned'' \<and>
   credential_user session_tokens (\<lambda>i. Inr (getUserById archive i) :: store_error + user option)
      (Some ''Bearer tok-bob'') = Some bob \<and>
   \<not> u_isBanned bob \<and>
   requireModerator session_tokens (\<lambda>i. Inr (getUserById archive i) :: store_error + user option)
      (Some ''Bearer tok-bob'') = Respond 403 ''Moderator access required'' \<and>
   requireAgeVerification session_tokens
      (\<lambda>i. Inr (getUserById archive i) :: store_error + user option)
      (Some ''Bearer tok-bob'') = Respond 403 ''Age verification required for 18+ content'' \<and>
   credential_user session_tokens (\<lambda>i. Inr (getUserById archive i) :: store_error + user option)
      (Some ''Bearer forged'') = None \<and>
   \<not> lookup_rejected session_tokens
      (\<lambda>i. Inr (getUserById archive i) :: store_error + user option) (Some ''Bearer forged'') \<and>
   status_of (requireAdmin session_tokens
      (\<lambda>i. Inr (getUserById archive i) :: store_error + user option) (Some ''Bearer forged''))
     = Some 401"
proof -
  let ?lookup = "\<lambda>i. Inr (getUserById archive i) :: store_error + user option"
  have j: "credential_user session_tokens ?lookup (Some ''Bearer tok-jerry'') = Some jerry"
    "u_isBanned jerry" "u_role jerry = ''admin''"
    by (simp_all add: credential_user_def bearer_token_def session_tokens_def getUserById_def
        select_where_def archive_defs)
  have b: "credential_user session_tokens ?lookup (Some ''Bearer tok-bob'') = Some bob"
    "\<not> u_isBanned bob" "u_role bob = ''user''" "\<not> u_ageVerified bob"
    by (simp_all add: credential_user_def bearer_token_def session_tokens_def getUserById_def
        select_where_def archive_defs)
  have f: "credential_user session_tokens ?lookup (Some ''Bearer forged'') = None"
    "\<not> lookup_rejected session_tokens ?lookup (Some ''Bearer forged'')"
    by (simp_all add: credential_user_def lookup_rejected_def bearer_token_def
        session_tokens_def)
  have c1: "requireAdmin session_tokens ?lookup (Some ''Bearer tok-jerry'')
              = Respond 403 ''Account banned''"
    and c2: "requireModerator session_tokens ?lookup (Some ''Bearer tok-jerry'')
              = Respond 403 ''Account banned''"
    using j access_checks_in_order [of session_tokens ?lookup "Some ''Bearer tok-jerry''" jerry]
    by blast+
  have "requireModerator session_tokens ?lookup (Some ''Bearer tok-bob'') =
      (if u_role bob = ''moderator'' \<or> u_role bob = ''admin'' then Next (as_req_user bob)
       else Respond 403 ''Moderator access required'')"
    using b access_checks_in_order [of session_tokens ?lookup "Some ''Bearer tok-bob''" bob]
    by blast
  then have c3: "requireModerator session_tokens ?lookup (Some ''Bearer tok-bob'')
      = Respond 403 ''Moderator access required''"
    using b by simp
  have "requireAgeVerification session_tokens ?lookup (Some ''Bearer tok-bob'') =
      (if u_ageVerified bob then Next (as_req_user bob)
       else Respond 403 ''Age verification required for 18+ content'')"
    using b access_checks_in_order [of session_tokens ?lookup "Some ''Bearer tok-bob''" bob]
    by blast
  then have c4: "requireAgeVerification session_tokens ?lookup (Some ''Bearer tok-bob'')
      = Respond 403 ''Age verification required for 18+ content''"
    using b by simp
  have c5: "status_of (requireAdmin session_tokens ?lookup (Some ''Bearer forged'')) = Some 401"
    using f access_checks_in_order [of session_tokens ?lookup "Some ''Bearer forged''"]
    by blast
  from j b f c1 c2 c3 c4 c5 show ?thesis by blast
qed

subsection \<open>Reports\<close>

lemma filter_id_single:
  assumes "distinct (map f rows)" and "r \<in> set rows"
  shows "filter (\<lambda>x. f x = f r) rows = [r]"
  using assms
proof (induction rows)
  case Nil
  then show ?case by simp
next
  case (Cons x rows)
  show ?case
  proof (cases "x = r")
    case True
    with Cons.prems have "\<forall>y \<in> set rows. f y \<noteq> f r" by (auto simp: image_iff)
    then have "filter (\<lambda>y. f y = f r) rows = []" by (simp add: filter_empty_conv)
    with True show ?thesis by simp
  next
    case False
    with Cons.prems have "r \<in> set rows" and "f x \<noteq> f r" by (auto simp: image_iff)
    with Cons show ?thesis by simp
  qed
qed




subsection \<open>Listing\<close>

lemma blind_holds:
  assumes "\<forall>g \<in> set c. \<forall>p \<in> set g. p (w\<lparr> fw_isHidden := b \<rparr>) = p w"
  shows "sql_holds c (w\<lparr> fw_isHidden := b \<rparr>) = sql_holds c w"
  using assms by (auto simp: sql_holds_def list_ex_iff list_all_iff)

lemma set_sql_and_text:
  "g \<in> set (sql_and_text a c) \<Longrightarrow> \<exists>g1 g2. set g = set g1 \<union> set g2 \<and>
     (g1 \<in> set a \<or> g1 = []) \<and> (g2 \<in> set c \<or> g2 = [])"
proof (induction a c rule: sql_and_text.induct)
  case (1 b)
  then show ?case by (intro exI [of _ "[]"] exI [of _ g]) simp
next
  case (2 g')
  then show ?case by (intro exI [of _ g] exI [of _ "[]"]) simp
next
  case (3 g' h hs)
  then consider "g = g' @ h" | "g \<in> set hs" by auto
  then show ?case
  proof cases
    case 1
    then show ?thesis by (intro exI [of _ g'] exI [of _ h]) simp
  next
    case 2
    then show ?thesis by (intro exI [of _ "[]"] exI [of _ g]) simp
  qed
next
  case (4 g0 g' gs b)
  then consider "g = g0" | "g \<in> set (sql_and_text (g' # gs) b)" by auto
  then show ?case
  proof cases
    case 1
    then show ?thesis by (intro exI [of _ g] exI [of _ "[]"]) simp
  next
    case 2
    from "4.IH" [OF 2] obtain g1 g2 where
      "set g = set g1 \<union> set g2" "g1 \<in> set (g' # gs) \<or> g1 = []" "g2 \<in> set b \<or> g2 = []"
      by blast
    then show ?thesis by (intro exI [of _ g1] exI [of _ g2]) auto
  qed
qed

lemma blind_atom: "(\<And>w. p (w\<lparr> fw_isHidden := h w \<rparr>) = p w) \<Longrightarrow> blind h (sql_atom p)"
  by (simp add: blind_def sql_atom_def)

lemma blind_or: "blind h a \<Longrightarrow> blind h c \<Longrightarrow> blind h (sql_or_text a c)"
  by (auto simp: blind_def sql_or_text_def)

lemma blind_and: "blind h a \<Longrightarrow> blind h c \<Longrightarrow> blind h (sql_and_text a c)"
  unfolding blind_def
proof (intro ballI allI)
  fix g p w
  assume a: "\<forall>g\<in>set a. \<forall>p\<in>set g. \<forall>w. p (w\<lparr>fw_isHidden := h w\<rparr>) = p w"
    and c: "\<forall>g\<in>set c. \<forall>p\<in>set g. \<forall>w. p (w\<lparr>fw_isHidden := h w\<rparr>) = p w"
    and g: "g \<in> set (sql_and_text a c)" and p: "p \<in> set g"
  from set_sql_and_text [OF g] obtain g1 g2 where
    "set g = set g1 \<union> set g2" "g1 \<in> set a \<or> g1 = []" "g2 \<in> set c \<or> g2 = []"
    by blast
  with p a c show "p (w\<lparr>fw_isHidden := h w\<rparr>) = p w" by auto
qed

lemma blind_sql_holds: "blind h c \<Longrightarrow> sql_holds c (w\<lparr> fw_isHidden := h w \<rparr>) = sql_holds c w"
  by (rule blind_holds) (simp add: blind_def)

lemma blind_paren: "blind h c \<Longrightarrow> blind h (sql_paren c)"
  by (simp add: blind_def sql_paren_def blind_sql_holds [unfolded blind_def])

lemma blind_join: "\<forall>c \<in> set cs. blind h c \<Longrightarrow> blind h (sql_join_and cs)"
  by (induction cs rule: sql_join_and.induct) (simp_all add: blind_and, simp add: blind_def)

lemma blind_drizzle_and:
  "\<forall>c \<in> set cs. blind h c \<Longrightarrow> drizzle_and cs = Some c \<Longrightarrow> blind h c"
proof (induction cs rule: drizzle_and.induct)
  case 1
  then show ?case by simp
next
  case (2 c')
  then show ?case by simp
next
  case (3 c1 c2 cs)
  then have "blind h (sql_join_and (c1 # c2 # cs))" by (intro blind_join) simp
  with 3 show ?case by (auto simp: blind_paren)
qed

lemma blind_conditions:
  "\<forall>c \<in> set (type_conditions fs). blind h c"
  "\<forall>c \<in> set (rating_conditions fs). blind h c"
  "\<forall>c \<in> set (search_conditions fs). blind h c"
  "author_conditions fs = Inr author \<Longrightarrow> \<forall>c \<in> set author. blind h c"
  by (auto simp: type_conditions_def rating_conditions_def search_conditions_def
      author_conditions_def search_text_def
      intro!: blind_atom blind_or split: option.splits list.splits)

lemma where_opt_hide:
  assumes "\<And>c. oc = Some c \<Longrightarrow> blind h c"
  shows "where_opt oc (map (\<lambda>w. w\<lparr> fw_isHidden := h w \<rparr>) ws)
           = map (\<lambda>w. w\<lparr> fw_isHidden := h w \<rparr>) (where_opt oc ws)"
proof (cases oc)
  case None
  then show ?thesis by simp
next
  case (Some c)
  with assms have "blind h c" by simp
  then show ?thesis
    using Some by (simp add: select_where_def filter_map o_def blind_sql_holds)
qed

lemma insert_desc_hide:
  "insert_desc (w\<lparr> fw_isHidden := h w \<rparr>) (map (\<lambda>w. w\<lparr> fw_isHidden := h w \<rparr>) vs)
     = map (\<lambda>w. w\<lparr> fw_isHidden := h w \<rparr>) (insert_desc w vs)"
  by (induction vs) simp_all

lemma orderBy_hide:
  "orderBy_desc_createdAt (map (\<lambda>w. w\<lparr> fw_isHidden := h w \<rparr>) ws)
     = map (\<lambda>w. w\<lparr> fw_isHidden := h w \<rparr>) (orderBy_desc_createdAt ws)"
  by (induction ws) (simp_all add: orderBy_desc_createdAt_def insert_desc_hide)

lemma limit_offset_map:
  "limit_offset lim off (map f ws) = map_sum (\<lambda>e. e) (map f) (limit_offset lim off ws)"
  by (simp add: limit_offset_def take_map drop_map split: option.splits)

lemma set_insert_desc: "set (insert_desc w vs) = insert w (set vs)"
  by (induction vs) auto

lemma set_orderBy: "set (orderBy_desc_createdAt ws) = set ws"
  by (induction ws) (simp_all add: orderBy_desc_createdAt_def set_insert_desc)


lemma getFanworks_hide:
  "getFanworks (d\<lparr> fanworks := map (\<lambda>w. w\<lparr> fw_isHidden := h w \<rparr>) (fanworks d) \<rparr>) fs
     = map_sum (\<lambda>e. e) (map (\<lambda>w. w\<lparr> fw_isHidden := h w \<rparr>)) (getFanworks d fs)"
proof (cases "author_conditions fs")
  case (Inl e)
  then show ?thesis by (simp add: getFanworks_def)
next
  case (Inr author)
  let ?cs = "type_conditions fs @ rating_conditions fs @ search_conditions fs @ author"
  have "\<forall>c \<in> set ?cs. blind h c"
    using blind_conditions(1-3) [of fs h] blind_conditions(4) [OF Inr, of h] by auto
  then have "\<And>c. drizzle_and ?cs = Some c \<Longrightarrow> blind h c"
    by (rule blind_drizzle_and)
  then have "where_opt (drizzle_and ?cs) (map (\<lambda>w. w\<lparr> fw_isHidden := h w \<rparr>) (fanworks d))
           = map (\<lambda>w. w\<lparr> fw_isHidden := h w \<rparr>) (where_opt (drizzle_and ?cs) (fanworks d))"
    by (rule where_opt_hide)
  then show ?thesis
    using Inr by (simp add: getFanworks_def Let_def orderBy_hide limit_offset_map)
qed

lemma getFanwork_hide:
  "getFanwork (d\<lparr> fanworks := map (\<lambda>w. w\<lparr> fw_isHidden := h w \<rparr>) (fanworks d) \<rparr>) i
     = map_option (\<lambda>w. w\<lparr> fw_isHidden := h w \<rparr>) (getFanwork d i)"
proof -
  have "first_row (map f xs) = map_option f (first_row xs)" for f :: "fanwork \<Rightarrow> fanwork" and xs
    by (cases xs) simp_all
  then show ?thesis
    by (simp add: getFanwork_def select_where_def filter_map o_def)
qed

text \<open>
  C4, as the code has it. \<open>getFanworks\<close> and \<open>getFanwork\<close> take no caller and
  never read \<open>isHidden\<close>: whatever the flags are set to, the listing and the read
  return the same rows (up to the flag itself), so a hidden fanwork is listed and read
  like a visible one, by its author, by a moderator and by everybody else. Without
  filters the listing is the first 20 fanworks by creation time, hidden ones included,
  and a fanwork of the store is read under its id whether it is hidden or not.
\<close>

theorem listing_ignores_hidden:
  "getFanworks (d\<lparr> fanworks := map (\<lambda>w. w\<lparr> fw_isHidden := h w \<rparr>) (fanworks d) \<rparr>) fs
     = map_sum (\<lambda>e. e) (map (\<lambda>w. w\<lparr> fw_isHidden := h w \<rparr>)) (getFanworks d fs) \<and>
   getFanwork (d\<lparr> fanworks := map (\<lambda>w. w\<lparr> fw_isHidden := h w \<rparr>) (fanworks d) \<rparr>) i
     = map_option (\<lambda>w. w\<lparr> fw_isHidden := h w \<rparr>) (getFanwork d i) \<and>
   getFanworks d None = Inr (take 20 (orderBy_desc_createdAt (fanworks d))) \<and>
   set (orderBy_desc_createdAt (fanworks d)) = set (fanworks d) \<and>
   (w \<in> set (fanworks d) \<and> distinct (map fw_id (fanworks d)) \<longrightarrow>
      getFanwork d (fw_id w) = Some w)"
proof -
  have none: "getFanworks d None = Inr (take 20 (orderBy_desc_createdAt (fanworks d)))"
    by (simp add: getFanworks_def author_conditions_def type_conditions_def
        rating_conditions_def search_conditions_def opt_field_def number_or_def
        limit_offset_def)
  have one: "w \<in> set (fanworks d) \<and> distinct (map fw_id (fanworks d)) \<longrightarrow>
      getFanwork d (fw_id w) = Some w"
    by (simp add: getFanwork_def select_where_def filter_id_single)
  from none one show ?thesis
    by (simp add: getFanworks_hide getFanwork_hide set_orderBy)
qed

text \<open>
  C4 as stated fails: the hidden fanfiction of the small store is in the listing
  (without filters, which is what an anonymous visitor asks for) and is read under its
  id.
\<close>

theorem hidden_listed_counterexample:
  "fw_isHidden pickle_fic \<and> fw_id pickle_fic = 2 \<and> fw_authorId pickle_fic = 1 \<and>
   fanworks archive = [portal_art, pickle_fic] \<and>
   getFanworks archive None = Inr [pickle_fic, portal_art] \<and>
   getFanworks archive (Some no_filters) = Inr [pickle_fic, portal_art] \<and>
   getFanwork archive 2 = Some pickle_fic"
  by (simp add: archive_defs getFanworks_def author_conditions_def type_conditions_def
      rating_conditions_def search_conditions_def opt_field_def number_or_def
      limit_offset_def orderBy_desc_createdAt_def desc_before_def no_filters_def
      getFanwork_def select_where_def)

text \<open>The hidden fanfiction of the small store.\<close>

theorem listing_ignores_hidden_witness:
  "pickle_fic \<in> set (fanworks archive) \<and> distinct (map fw_id (fanworks archive)) \<and>
   fw_isHidden pickle_fic \<and> getFanwork archive (fw_id pickle_fic) = Some pickle_fic"
proof -
  have a: "pickle_fic \<in> set (fanworks archive)" "distinct (map fw_id (fanworks archive))"
    "fw_isHidden pickle_fic"
    by (simp_all add: archive_defs)
  from a listing_ignores_hidden [where d = archive and w = pickle_fic] show ?thesis by blast
qed

text \<open>
  C6 says that the listing returns exactly the fanworks that match every given filter
  (type, rating, tag, search, author). The code does not: the \<open>tags\<close> filter is taken
  and never used, and the search text \<open>title ILIKE p OR description ILIKE p\<close> is
  joined to the other conditions without parentheses, so that a match of the
  description alone passes whatever the type, rating or author. On the small store, a
  listing by the tag "portal" returns the fanfiction, which has no tag, and a listing
  of artworks that mention "rick" returns the fanfiction, for its description. The
  other variant of the storage writes the parentheses and returns nothing for the
  second request.
\<close>

theorem getFanworks_filters_failing_inputs:
  "getFanworkTags archive 2 = [] \<and>
   getFanworks archive (Some (no_filters\<lparr> f_tags := Some [''portal''] \<rparr>))
     = Inr [pickle_fic, portal_art] \<and>
   fw_type pickle_fic = ''fanfiction'' \<and>
   getFanworks archive (Some (no_filters\<lparr> f_type := Some [''artwork''], f_search := Some ''rick'' \<rparr>))
     = Inr [pickle_fic] \<and>
   getFanworks_v2 decimal archive
       (Some (no_filters\<lparr> f_type := Some [''artwork''], f_search := Some ''rick'' \<rparr>))
     = Inr []"
proof -
  have m: "ilike (Some ''Portal gun'') ''%rick%'' = False"
    "ilike (Some ''A green portal'') ''%rick%'' = False"
    "ilike (Some ''Pickle'') ''%rick%'' = False"
    "ilike (Some ''Rick is a pickle'') ''%rick%'' = True"
    by (simp_all add: ilike_def ascii_lower_def)
  have t: "getFanworkTags archive 2 = []"
    by (simp add: getFanworkTags_def archive_def select_where_def)
  have g1: "getFanworks archive (Some (no_filters\<lparr> f_tags := Some [''portal''] \<rparr>))
     = Inr [pickle_fic, portal_art]"
    by (simp add: archive_defs getFanworks_def author_conditions_def type_conditions_def
      rating_conditions_def search_conditions_def opt_field_def number_or_def
      limit_offset_def orderBy_desc_createdAt_def desc_before_def no_filters_def)
  have g2: "getFanworks archive
       (Some (no_filters\<lparr> f_type := Some [''artwork''], f_search := Some ''rick'' \<rparr>))
     = Inr [pickle_fic]"
    by (simp add: archive_defs getFanworks_def author_conditions_def type_conditions_def
      rating_conditions_def search_conditions_def opt_field_def number_or_def
      limit_offset_def orderBy_desc_createdAt_def desc_before_def no_filters_def
      search_text_def sql_atom_def sql_or_text_def sql_paren_def sql_holds_def
      select_where_def m)
  have g3: "getFanworks_v2 decimal archive
       (Some (no_filters\<lparr> f_type := Some [''artwork''], f_search := Some ''rick'' \<rparr>))
     = Inr []"
    by (simp add: archive_defs getFanworks_v2_def author_conditions_v2_def type_conditions_def
      rating_conditions_def search_conditions_v2_def opt_field_def number_or_def
      limit_offset_def orderBy_desc_createdAt_def desc_before_def no_filters_def
      search_text_def sql_atom_def sql_or_text_def sql_paren_def sql_holds_def
      select_where_def m)
  have f: "fw_type pickle_fic = ''fanfiction''" by (simp add: pickle_fic_def portal_art_def)
  from t g1 f g2 g3 show ?thesis by blast
qed

subsection \<open>Bans\<close>

lemma banUser_frame:
  "fanworks (snd (banUser int4in d userId data)) = fanworks d"
  "comments (snd (banUser int4in d userId data)) = comments d"
  "tags (snd (banUser int4in d userId data)) = tags d"
  "fanworkTags (snd (banUser int4in d userId data)) = fanworkTags d"
  "likes (snd (banUser int4in d userId data)) = likes d"
  "bookmarks (snd (banUser int4in d userId data)) = bookmarks d"
  "reports (snd (banUser int4in d userId data)) = reports d"
  by (simp_all add: banUser_def Let_def split: option.splits)

lemma banUser_users:
  "users (snd (banUser int4in d userId data)) = users d \<or>
   (\<exists>uid by. int4in userId = Some uid \<and> int4in (bannedBy data) = Some by \<and>
      users (snd (banUser int4in d userId data))
        = map (\<lambda>u. if u_id u = uid then set_ban (banReason data) by (bannedAt data) u else u)
            (users d))"
  by (simp add: banUser_def Let_def split: option.splits)

lemma others_kept:
  assumes "\<And>u. u_id (f u) = u_id u"
  shows "filter (\<lambda>u. u_id u \<noteq> uid) (map (\<lambda>u. if u_id u = uid then f u else u) us)
           = filter (\<lambda>u. u_id u \<noteq> uid) us"
  by (induction us) (simp_all add: assms)

text \<open>
  C8. \<open>banUser\<close> changes nothing but the four ban fields (\<open>isBanned\<close>,
  \<open>banReason\<close>, \<open>bannedBy\<close>, \<open>bannedAt\<close>) of the user with the given id: the
  fanworks and the comments, with their \<open>isHidden\<close> flags, are the same rows after
  the call, \<open>getFanwork\<close> returns what it returned before, the other users are
  unchanged, and the banned user differs in the ban fields only. When the ids are read
  by the store and the moderator exists, the call returns the user with the ban set.
\<close>

theorem banUser_touches_ban_fields_only:
  "fanworks (snd (banUser int4in d userId data)) = fanworks d \<and>
   comments (snd (banUser int4in d userId data)) = comments d \<and>
   getFanwork (snd (banUser int4in d userId data)) fanworkId = getFanwork d fanworkId \<and>
   map (\<lambda>u. u\<lparr> u_isBanned := False, u_banReason := None, u_bannedBy := None,
               u_bannedAt := None \<rparr>) (users (snd (banUser int4in d userId data)))
     = map (\<lambda>u. u\<lparr> u_isBanned := False, u_banReason := None, u_bannedBy := None,
                 u_bannedAt := None \<rparr>) (users d) \<and>
   filter (\<lambda>u. Some (u_id u) \<noteq> int4in userId) (users (snd (banUser int4in d userId data)))
     = filter (\<lambda>u. Some (u_id u) \<noteq> int4in userId) (users d) \<and>
   (int4in userId = Some uid \<and> int4in (bannedBy data) = Some modId \<and>
    modId \<in> set (map u_id (users d)) \<and> u \<in> set (users d) \<and> u_id u = uid \<and>
    distinct (map u_id (users d)) \<longrightarrow>
      fst (banUser int4in d userId data)
        = Inr (Some (u\<lparr> u_isBanned := True, u_banReason := Some (banReason data),
                        u_bannedBy := Some modId, u_bannedAt := Some (bannedAt data) \<rparr>)) \<and>
      getUserById (snd (banUser int4in d userId data)) uid
        = Some (u\<lparr> u_isBanned := True, u_banReason := Some (banReason data),
                    u_bannedBy := Some modId, u_bannedAt := Some (bannedAt data) \<rparr>))"
proof -
  let ?d = "snd (banUser int4in d userId data)"
  let ?strip = "\<lambda>u. u\<lparr> u_isBanned := False, u_banReason := None, u_bannedBy := None,
               u_bannedAt := None \<rparr>"
  have f: "fanworks ?d = fanworks d" "comments ?d = comments d"
    by (rule banUser_frame)+
  then have g: "getFanwork ?d fanworkId = getFanwork d fanworkId"
    by (simp add: getFanwork_def)
  have s: "map ?strip (users ?d) = map ?strip (users d)"
    using banUser_users [of int4in d userId data] by (auto simp: set_ban_def)
  have o: "filter (\<lambda>u. Some (u_id u) \<noteq> int4in userId) (users ?d)
     = filter (\<lambda>u. Some (u_id u) \<noteq> int4in userId) (users d)"
  proof -
    have "filter (\<lambda>u. u_id u \<noteq> uid)
            (map (\<lambda>u. if u_id u = uid then set_ban r b a u else u) (users d))
          = filter (\<lambda>u. u_id u \<noteq> uid) (users d)" for uid r b a
      by (rule others_kept) (simp add: set_ban_def)
    then show ?thesis
      using banUser_users [of int4in d userId data] by auto
  qed
  have b: "int4in userId = Some uid \<and> int4in (bannedBy data) = Some modId \<and>
    modId \<in> set (map u_id (users d)) \<and> u \<in> set (users d) \<and> u_id u = uid \<and>
    distinct (map u_id (users d)) \<longrightarrow>
      fst (banUser int4in d userId data)
        = Inr (Some (u\<lparr> u_isBanned := True, u_banReason := Some (banReason data),
                        u_bannedBy := Some modId, u_bannedAt := Some (bannedAt data) \<rparr>)) \<and>
      getUserById ?d uid
        = Some (u\<lparr> u_isBanned := True, u_banReason := Some (banReason data),
                    u_bannedBy := Some modId, u_bannedAt := Some (bannedAt data) \<rparr>)"
  proof (intro impI, elim conjE)
    assume a: "int4in userId = Some uid" "int4in (bannedBy data) = Some modId"
      "modId \<in> set (map u_id (users d))" "u \<in> set (users d)" "u_id u = uid"
      "distinct (map u_id (users d))"
    let ?ban = "set_ban (banReason data) modId (bannedAt data)"
    have m: "filter (\<lambda>x. u_id x = uid) (users d) = [u]"
      using filter_id_single [OF a(6,4)] a(5) by simp
    have m': "filter (\<lambda>x. u_id x = uid)
        (map (\<lambda>x. if u_id x = uid then ?ban x else x) (users d)) = [?ban u]"
    proof -
      have "filter (\<lambda>x. u_id x = uid) (map (\<lambda>x. if u_id x = uid then ?ban x else x) (users d))
          = map ?ban (filter (\<lambda>x. u_id x = uid) (users d))"
        by (induction "users d") (auto simp: filter_map o_def set_ban_def intro: filter_cong)
      then show ?thesis by (simp add: m)
    qed
    show "fst (banUser int4in d userId data)
        = Inr (Some (u\<lparr> u_isBanned := True, u_banReason := Some (banReason data),
                        u_bannedBy := Some modId, u_bannedAt := Some (bannedAt data) \<rparr>)) \<and>
      getUserById ?d uid
        = Some (u\<lparr> u_isBanned := True, u_banReason := Some (banReason data),
                    u_bannedBy := Some modId, u_bannedAt := Some (bannedAt data) \<rparr>)"
      using a(1,2,3) by (simp add: banUser_def Let_def select_where_def m m' getUserById_def)
        (simp add: set_ban_def)
  qed
  from f g s o b show ?thesis by blast
qed

text \<open>The moderator bans the first user of the small store, the author of both fanworks.\<close>

theorem banUser_touches_ban_fields_only_witness:
  "decimal ''1'' = Some 1 \<and> decimal ''3'' = Some 3 \<and> 3 \<in> set (map u_id (users archive)) \<and>
   alice \<in> set (users archive) \<and> u_id alice = 1 \<and> distinct (map u_id (users archive)) \<and>
   fst (banUser decimal archive ''1'' \<lparr> banReason = ''spam'', bannedBy = ''3'', bannedAt = 990 \<rparr>)
     = Inr (Some (alice\<lparr> u_isBanned := True, u_banReason := Some ''spam'', u_bannedBy := Some 3,
                        u_bannedAt := Some 990 \<rparr>)) \<and>
   fanworks (snd (banUser decimal archive ''1''
       \<lparr> banReason = ''spam'', bannedBy = ''3'', bannedAt = 990 \<rparr>)) = [portal_art, pickle_fic] \<and>
   fw_authorId portal_art = 1 \<and>
   getFanwork (snd (banUser decimal archive ''1''
       \<lparr> banReason = ''spam'', bannedBy = ''3'', bannedAt = 990 \<rparr>)) 1 = Some portal_art"
proof -
  let ?data = "\<lparr> banReason = ''spam'', bannedBy = ''3'', bannedAt = 990 \<rparr>"
  have dec: "decimal ''1'' = Some 1" "decimal ''3'' = Some 3"
    by code_simp+
  have a: "3 \<in> set (map u_id (users archive))" "alice \<in> set (users archive)" "u_id alice = 1"
    "distinct (map u_id (users archive))" "fw_authorId portal_art = 1"
    by (simp_all add: archive_defs)
  have fw: "fanworks archive = [portal_art, pickle_fic]" by (simp add: archive_def)
  have g: "getFanwork archive 1 = Some portal_art"
    by (simp add: getFanwork_def select_where_def archive_defs)
  note t = banUser_touches_ban_fields_only [where int4in = decimal and d = archive
      and userId = "''1''" and data = ?data and uid = 1 and modId = 3 and u = alice
      and fanworkId = 1]
  have d3: "decimal (bannedBy ?data) = Some 3" using dec by simp
  have "fst (banUser decimal archive ''1'' ?data)
     = Inr (Some (alice\<lparr> u_isBanned := True, u_banReason := Some (banReason ?data),
                        u_bannedBy := Some 3, u_bannedAt := Some (bannedAt ?data) \<rparr>))"
    using t dec(1) d3 a by blast
  then have c1: "fst (banUser decimal archive ''1'' ?data)
     = Inr (Some (alice\<lparr> u_isBanned := True, u_banReason := Some ''spam'',
                        u_bannedBy := Some 3, u_bannedAt := Some 990 \<rparr>))"
    by simp
  have c2: "fanworks (snd (banUser decimal archive ''1'' ?data)) = fanworks archive"
    using t by blast
  have c3: "getFanwork (snd (banUser decimal archive ''1'' ?data)) 1 = getFanwork archive 1"
    using t by blast
  from dec a c1 c2 c3 fw g show ?thesis by simp
qed

subsection \<open>Deleting a comment\<close>

text \<open>
  C10. For a comment of the store and a user who is not its author,
  \<open>deleteComment\<close> completes without an error and leaves the store, and so the
  comments table, as it was; for the author, it removes the comment and no other. The
  variant that takes the user id as a text does the same for the id the text stands
  for.
\<close>

theorem deleteComment_author_only:
  assumes "c \<in> set (comments d)" and "distinct (map c_id (comments d))"
  shows
    "(c_userId c \<noteq> userId \<longrightarrow> deleteComment d (c_id c) userId = (Inr (), d)) \<and>
     (c_userId c = userId \<longrightarrow>
        fst (deleteComment d (c_id c) userId) = Inr () \<and>
        comments (snd (deleteComment d (c_id c) userId)) = filter (\<lambda>x. x \<noteq> c) (comments d) \<and>
        c \<notin> set (comments (snd (deleteComment d (c_id c) userId)))) \<and>
     (int4in userText = Some userId \<longrightarrow>
        deleteComment_v2 int4in d (c_id c) userText = deleteComment d (c_id c) userId)"
proof -
  have only: "x \<in> set (comments d) \<Longrightarrow> c_id x = c_id c \<longleftrightarrow> x = c" for x
    using assms by (auto simp: distinct_map inj_on_def)
  have other: "c_userId c \<noteq> userId \<longrightarrow> deleteComment d (c_id c) userId = (Inr (), d)"
  proof
    assume n: "c_userId c \<noteq> userId"
    have none: "\<forall>x \<in> set (comments d). \<not> (c_id x = c_id c \<and> c_userId x = userId)"
      using only n by auto
    then have k: "filter (\<lambda>x. \<not> (c_id x = c_id c \<and> c_userId x = userId)) (comments d) = comments d"
      by (simp add: filter_id_conv)
    from none have g: "filter (\<lambda>x. c_id x = c_id c \<and> c_userId x = userId) (comments d) = []"
      by (simp add: filter_empty_conv)
    have r: "filter (\<lambda>r. \<not> (case r_commentId r of None \<Rightarrow> False | Some k \<Rightarrow> k \<in> set (map c_id [])))
        (reports d) = reports d"
      by (simp add: filter_id_conv split: option.splits)
    show "deleteComment d (c_id c) userId = (Inr (), d)"
      unfolding deleteComment_def select_where_def delete_where_def Let_def g k r by simp
  qed
  have own: "c_userId c = userId \<longrightarrow>
        fst (deleteComment d (c_id c) userId) = Inr () \<and>
        comments (snd (deleteComment d (c_id c) userId)) = filter (\<lambda>x. x \<noteq> c) (comments d) \<and>
        c \<notin> set (comments (snd (deleteComment d (c_id c) userId)))"
  proof
    assume e: "c_userId c = userId"
    have "filter (\<lambda>x. \<not> (c_id x = c_id c \<and> c_userId x = userId)) (comments d)
        = filter (\<lambda>x. x \<noteq> c) (comments d)"
      using only e by (intro filter_cong) auto
    then show "fst (deleteComment d (c_id c) userId) = Inr () \<and>
        comments (snd (deleteComment d (c_id c) userId)) = filter (\<lambda>x. x \<noteq> c) (comments d) \<and>
        c \<notin> set (comments (snd (deleteComment d (c_id c) userId)))"
      by (simp add: deleteComment_def Let_def delete_where_def)
  qed
  have v2: "int4in userText = Some userId \<longrightarrow>
        deleteComment_v2 int4in d (c_id c) userText = deleteComment d (c_id c) userId"
    by (simp add: deleteComment_v2_def)
  from other own v2 show ?thesis by blast
qed

text \<open>The comment of the small store, for the first user (not the author) and for the second.\<close>

theorem deleteComment_author_only_witness:
  "bobs_comment \<in> set (comments archive) \<and> distinct (map c_id (comments archive)) \<and>
   c_userId bobs_comment \<noteq> 1 \<and>
   deleteComment archive (c_id bobs_comment) 1 = (Inr (), archive) \<and>
   c_userId bobs_comment = 2 \<and>
   comments (snd (deleteComment archive (c_id bobs_comment) 2)) = [] \<and>
   decimal ''1'' = Some 1 \<and>
   deleteComment_v2 decimal archive (c_id bobs_comment) ''1'' = (Inr (), archive)"
proof -
  have a: "bobs_comment \<in> set (comments archive)" "distinct (map c_id (comments archive))"
    "c_userId bobs_comment \<noteq> 1" "c_userId bobs_comment = 2"
    by (simp_all add: archive_defs)
  have dec: "decimal ''1'' = Some 1"
    by code_simp
  note t1 = deleteComment_author_only [OF a(1,2), where userId = 1 and int4in = decimal
      and userText = "''1''"]
  note t2 = deleteComment_author_only [OF a(1,2), where userId = 2]
  have c1: "deleteComment archive (c_id bobs_comment) 1 = (Inr (), archive)"
    using t1 a by blast
  have "deleteComment_v2 decimal archive (c_id bobs_comment) ''1''
      = deleteComment archive (c_id bobs_comment) 1"
    using t1 dec by blast
  then have c2: "deleteComment_v2 decimal archive (c_id bobs_comment) ''1'' = (Inr (), archive)"
    using c1 by simp
  have "comments (snd (deleteComment archive (c_id bobs_comment) 2))
      = filter (\<lambda>x. x \<noteq> bobs_comment) (comments archive)"
    using t2 a by blast
  then have c3: "comments (snd (deleteComment archive (c_id bobs_comment) 2)) = []"
    by (simp add: archive_def)
  from a dec c1 c2 c3 show ?thesis by blast
qed

end
